theory Spec2Isabelle
  imports Complex_Main
begin

section \<open>Numeric conventions\<close>

text \<open>
  The pair style \<^verbatim>\<open>lj/cut/coul/dsf/linear\<close> computes in C doubles. A double is modelled
  as a real number: the theory speaks about the formulas the code evaluates, not about
  rounding, overflow or NaN. Two consequences are written out where they matter:
  \<^item> division by zero is not an error in HOL (\<open>x / 0 = 0\<close>), whereas the code
    produces an infinity; statements about a distance therefore assume it is positive;
  \<^item> \<^verbatim>\<open>pow(x, 12.0)\<close> and \<^verbatim>\<open>pow(x, 6.0)\<close> have an integral exponent, for which the C
    library returns the product of twelve (six) copies of \<open>x\<close> for every sign of
    \<open>x\<close>; they are modelled as \<open>x ^ 12\<close> and \<open>x ^ 6\<close>.
  Type indices and particle indices are natural numbers; integer flags are \<open>int\<close>.
\<close>

subsection \<open>Constants of the file\<close>

definition EWALD_F :: real where "EWALD_F = 1.12837917"
definition EWALD_P :: real where "EWALD_P = 0.3275911"
definition A1 :: real where "A1 = 0.254829592"
definition A2 :: real where "A2 = - 0.284496736"
definition A3 :: real where "A3 = 1.421413741"
definition A4 :: real where "A4 = - 1.453152027"
definition A5 :: real where "A5 = 1.061405429"
definition two_pis :: real where "two_pis = 1.12837916709551"

section \<open>Data model\<close>

type_synonym 'a table = "nat \<Rightarrow> nat \<Rightarrow> 'a"

text \<open>\<open>t[i][j] = v\<close> on a two-dimensional array.\<close>

definition tab_set :: "'a table \<Rightarrow> nat \<Rightarrow> nat \<Rightarrow> 'a \<Rightarrow> 'a table" where
  "tab_set t i j v = (\<lambda>a b. if a = i \<and> b = j then v else t a b)"

text \<open>
  The member function pointer \<^verbatim>\<open>unshifted\<close> is one of the four kernels of the class.
\<close>

datatype kernel = Unshifted_none | Unshifted_debye | Unshifted_gauss | Unshifted_erfc

text \<open>
  The fields of the pair style. \<open>offset_flag\<close>, \<open>tail_flag\<close>, \<open>etail_ij\<close> and
  \<open>ptail_ij\<close> are inherited from the host's base class. \<open>mix_weight\<close> stands for the
  inherited mixing policy (see \<open>mix_energy\<close> below). The tables are indexed
  \<open>1 .. ntypes\<close> in both dimensions; the arrays are allocated without being cleared,
  so an entry that was never written holds whatever the state holds there.
\<close>

record pair_state =
  allocated :: bool
  setflag :: "int table"
  cutsq :: "real table"
  cut_lj :: "real table"
  cut_ljsq :: "real table"
  epsilon :: "real table"
  sigma :: "real table"
  lj1 :: "real table"
  lj2 :: "real table"
  lj3 :: "real table"
  lj4 :: "real table"
  offset :: "real table"
  alpha :: real
  cut_lj_global :: real
  cut_coul :: real
  cut_coulsq :: real
  e_shift :: real
  f_shift :: real
  e_self :: real
  self_flag :: int
  unshifted_flag :: int
  single_enable :: int
  unshifted :: kernel
  offset_flag :: int
  tail_flag :: int
  mix_weight :: "(real \<Rightarrow> real \<Rightarrow> real) option"
  etail_ij :: real
  ptail_ij :: real

text \<open>
  What the file reads from the host: the particle data (\<^verbatim>\<open>atom\<close>) and the force-field
  object (\<^verbatim>\<open>force\<close>) with its unit constant \<^verbatim>\<open>qqrd2e\<close> and its argument parsers. The
  parsers are not part of the file; they are parameters. \<open>None\<close> is the parser's
  own abort of the run.
\<close>

record atom_t =
  q_flag :: int
  atom_q :: "nat \<Rightarrow> real"
  atom_type :: "nat \<Rightarrow> nat"
  nlocal :: nat
  ntypes :: nat

record force_t =
  qqrd2e :: real
  numeric :: "string \<Rightarrow> real option"
  bounds :: "string \<Rightarrow> nat \<Rightarrow> (nat \<times> nat) option"

datatype error =
  Illegal_pair_style_command
  | Incorrect_args_for_pair_coefficients
  | Requires_atom_charges
  | Host_parse_error

section \<open>The damping kernels\<close>

text \<open>
  Each kernel returns the pair \<open>(v, f)\<close> it writes through its reference arguments.
  The assignments are kept in the order of the source.
\<close>

definition unshifted_none :: "pair_state \<Rightarrow> real \<Rightarrow> real \<times> real" where
  "unshifted_none p r =
     (let v = 1 / r;
          f = v * v
      in (v, f))"

definition unshifted_debye :: "pair_state \<Rightarrow> real \<Rightarrow> real \<times> real" where
  "unshifted_debye p r =
     (let ar = alpha p * r;
          f = 1 / r;
          v = exp (- ar) * f;
          f = f * ((1 + ar) * v)
      in (v, f))"

definition unshifted_gauss :: "pair_state \<Rightarrow> real \<Rightarrow> real \<times> real" where
  "unshifted_gauss p r =
     (let ar = alpha p * r;
          ar = ar * ar;
          f = 1 / r;
          v = exp (- ar) * f;
          f = f * ((1 + 2 * ar) * v)
      in (v, f))"

definition unshifted_erfc :: "pair_state \<Rightarrow> real \<Rightarrow> real \<times> real" where
  "unshifted_erfc p r =
     (let ar = alpha p * r;
          f = exp (- ar * ar) / r;
          v = 1 / (1 + EWALD_P * ar);
          v = v * ((A1 + v * (A2 + v * (A3 + v * (A4 + v * A5)))) * f);
          f = v / r + two_pis * alpha p * f
      in (v, f))"

text \<open>The call \<^verbatim>\<open>(this->*unshifted)(r, v, f)\<close>.\<close>

definition call_unshifted :: "pair_state \<Rightarrow> real \<Rightarrow> real \<times> real" where
  "call_unshifted p r =
     (case unshifted p of
        Unshifted_none \<Rightarrow> unshifted_none p r
      | Unshifted_debye \<Rightarrow> unshifted_debye p r
      | Unshifted_gauss \<Rightarrow> unshifted_gauss p r
      | Unshifted_erfc \<Rightarrow> unshifted_erfc p r)"

section \<open>Allocation and configuration\<close>

text \<open>
  \<^verbatim>\<open>allocate\<close> creates the arrays and clears \<open>setflag\<close> on the upper triangle
  \<open>1 \<le> i \<le> j \<le> ntypes\<close> only. Nothing else is initialised.
\<close>

definition allocate :: "atom_t \<Rightarrow> pair_state \<Rightarrow> pair_state" where
  "allocate atom p =
     (let p = p\<lparr>allocated := True\<rparr>;
          n = ntypes atom
      in fold (\<lambda>i. fold (\<lambda>j p. p\<lparr>setflag := tab_set (setflag p) i j 0\<rparr>) [i ..< n + 1])
           [1 ..< n + 1] p)"

text \<open>
  The keyword loop of \<^verbatim>\<open>settings\<close>, on the arguments from \<^verbatim>\<open>iarg\<close> on. Every
  iteration consumes two arguments or aborts; a keyword without a value aborts.
\<close>

fun keyword_loop :: "pair_state \<Rightarrow> string list \<Rightarrow> error + pair_state" where
  "keyword_loop p [] = Inr p"
| "keyword_loop p [k] = Inl Illegal_pair_style_command"
| "keyword_loop p (k # w # rest) =
     (if k = ''self'' then
        (if w = ''yes'' then keyword_loop (p\<lparr>self_flag := 1\<rparr>) rest
         else if w = ''no'' then keyword_loop (p\<lparr>self_flag := 0\<rparr>) rest
         else Inl Illegal_pair_style_command)
      else if k = ''damp'' then
        (if w = ''none'' then keyword_loop (p\<lparr>unshifted_flag := 0\<rparr>) rest
         else if w = ''debye'' then keyword_loop (p\<lparr>unshifted_flag := 1\<rparr>) rest
         else if w = ''gauss'' then keyword_loop (p\<lparr>unshifted_flag := 2\<rparr>) rest
         else if w = ''erfc'' then keyword_loop (p\<lparr>unshifted_flag := 3\<rparr>) rest
         else Inl Illegal_pair_style_command)
      else Inl Illegal_pair_style_command)"

text \<open>The last block of \<^verbatim>\<open>settings\<close>: reset cutoffs that have been explicitly set.\<close>

definition reset_cutoffs :: "atom_t \<Rightarrow> pair_state \<Rightarrow> pair_state" where
  "reset_cutoffs atom p =
     (if allocated p then
        fold (\<lambda>i. fold (\<lambda>j p. if setflag p i j \<noteq> 0
                                then p\<lparr>cut_lj := tab_set (cut_lj p) i j (cut_lj_global p)\<rparr>
                                else p)
                     [i + 1 ..< ntypes atom + 1])
          [1 ..< ntypes atom + 1] p
      else p)"

definition settings :: "atom_t \<Rightarrow> force_t \<Rightarrow> pair_state \<Rightarrow> string list \<Rightarrow> error + pair_state" where
  "settings atom force p arg =
     (if length arg < 2 then Inl Illegal_pair_style_command
      else case numeric force (arg ! 0) of
        None \<Rightarrow> Inl Host_parse_error
      | Some a \<Rightarrow>
       (case numeric force (arg ! 1) of
          None \<Rightarrow> Inl Host_parse_error
        | Some c \<Rightarrow>
           (let p = p\<lparr>alpha := a, cut_lj_global := c\<rparr> in
            case (if length arg < 3 then Some (cut_lj_global p, 2)
                  else if arg ! 2 = ''self'' \<or> arg ! 2 = ''damp'' then Some (cut_lj_global p, 2)
                  else map_option (\<lambda>x. (x, 3)) (numeric force (arg ! 2))) of
              None \<Rightarrow> Inl Host_parse_error
            | Some (cc, iarg) \<Rightarrow>
               (case keyword_loop (p\<lparr>cut_coul := cc\<rparr>) (drop iarg arg) of
                  Inl e \<Rightarrow> Inl e
                | Inr p \<Rightarrow>
                    Inr (reset_cutoffs atom
                          (p\<lparr>single_enable := (if self_flag p = 0 then 1 else 0)\<rparr>))))))"

text \<open>
  The double loop of \<^verbatim>\<open>coeff\<close>, with the counter it keeps. The inner loop starts at
  \<^verbatim>\<open>MAX(jlo,i)\<close>.
\<close>

definition coeff_loop ::
  "pair_state \<Rightarrow> nat \<Rightarrow> nat \<Rightarrow> nat \<Rightarrow> nat \<Rightarrow> real \<Rightarrow> real \<Rightarrow> real \<Rightarrow> pair_state \<times> int" where
  "coeff_loop p ilo ihi jlo jhi epsilon_one sigma_one cut_lj_one =
     fold (\<lambda>i. fold (\<lambda>j (p, count).
                        (p\<lparr>epsilon := tab_set (epsilon p) i j epsilon_one,
                           sigma := tab_set (sigma p) i j sigma_one,
                           cut_lj := tab_set (cut_lj p) i j cut_lj_one,
                           setflag := tab_set (setflag p) i j 1\<rparr>,
                         count + 1))
                     [max jlo i ..< jhi + 1])
       [ilo ..< ihi + 1] (p, 0)"

definition coeff :: "atom_t \<Rightarrow> force_t \<Rightarrow> pair_state \<Rightarrow> string list \<Rightarrow> error + pair_state" where
  "coeff atom force p arg =
     (if length arg < 4 \<or> length arg > 5 then Inl Incorrect_args_for_pair_coefficients
      else
        let p = (if \<not> allocated p then allocate atom p else p) in
        case bounds force (arg ! 0) (ntypes atom) of
          None \<Rightarrow> Inl Host_parse_error
        | Some (ilo, ihi) \<Rightarrow>
         (case bounds force (arg ! 1) (ntypes atom) of
            None \<Rightarrow> Inl Host_parse_error
          | Some (jlo, jhi) \<Rightarrow>
           (case numeric force (arg ! 2) of
              None \<Rightarrow> Inl Host_parse_error
            | Some epsilon_one \<Rightarrow>
             (case numeric force (arg ! 3) of
                None \<Rightarrow> Inl Host_parse_error
              | Some sigma_one \<Rightarrow>
               (case (if length arg = 5 then numeric force (arg ! 4)
                      else Some (cut_lj_global p)) of
                  None \<Rightarrow> Inl Host_parse_error
                | Some cut_lj_one \<Rightarrow>
                   (case coeff_loop p ilo ihi jlo jhi epsilon_one sigma_one cut_lj_one of
                      (p, count) \<Rightarrow>
                        if count = 0 then Inl Incorrect_args_for_pair_coefficients
                        else Inr p))))))"

section \<open>Calibration of the shift constants\<close>

text \<open>
  \<^verbatim>\<open>init_parameters\<close> binds the kernel selected by \<open>unshifted_flag\<close> (a flag outside
  \<open>0 .. 3\<close> leaves the pointer as it was), caches the squared Coulomb cutoff and
  derives \<open>f_shift\<close>, \<open>e_shift\<close> and \<open>e_self\<close>.
\<close>

definition init_parameters :: "force_t \<Rightarrow> pair_state \<Rightarrow> pair_state" where
  "init_parameters force p =
     (let p = (if unshifted_flag p = 0 then p\<lparr>unshifted := Unshifted_none\<rparr>
               else if unshifted_flag p = 1 then p\<lparr>unshifted := Unshifted_debye\<rparr>
               else if unshifted_flag p = 2 then p\<lparr>unshifted := Unshifted_gauss\<rparr>
               else if unshifted_flag p = 3 then p\<lparr>unshifted := Unshifted_erfc\<rparr>
               else p);
          p = p\<lparr>cut_coulsq := cut_coul p * cut_coul p\<rparr>;
          p = (case call_unshifted p (cut_coul p) of (v, f) \<Rightarrow> p\<lparr>e_shift := v, f_shift := f\<rparr>);
          p = p\<lparr>e_shift := e_shift p + f_shift p * cut_coul p\<rparr>
      in if unshifted_flag p = 1 then
           p\<lparr>e_self := - 0.5 * (e_shift p + alpha p) / qqrd2e force\<rparr>
         else if unshifted_flag p = 3 then
           p\<lparr>e_self := - 0.5 * (e_shift p + two_pis * alpha p) / qqrd2e force\<rparr>
         else
           p\<lparr>e_self := - 0.5 * e_shift p / qqrd2e force\<rparr>)"

text \<open>
  \<^verbatim>\<open>init_style\<close> refuses a system without charges, files its request for a neighbour
  list with the host, which does not touch the state of the pair style, and calibrates.
\<close>

definition init_style :: "atom_t \<Rightarrow> force_t \<Rightarrow> pair_state \<Rightarrow> error + pair_state" where
  "init_style atom force p =
     (if q_flag atom = 0 then Inl Requires_atom_charges
      else Inr (init_parameters force p))"

section \<open>Finalising one type pair\<close>

text \<open>
  Modelled from the spec: \<^verbatim>\<open>mix_energy\<close> and \<^verbatim>\<open>mix_distance\<close> are methods of the host's
  base class and are not in the file. The spec gives the mixed energy as the geometric
  mean of the two self energies, optionally weighted by a factor that depends on the two
  self distances according to the mixing policy, and the mixed distance as the
  arithmetic mean. The policy is the field \<open>mix_weight\<close>: \<open>None\<close> is the plain geometric
  mean, \<open>Some w\<close> multiplies it by \<open>w \<sigma>\<^sub>1 \<sigma>\<^sub>2\<close>.
\<close>

definition mix_energy ::
  "(real \<Rightarrow> real \<Rightarrow> real) option \<Rightarrow> real \<Rightarrow> real \<Rightarrow> real \<Rightarrow> real \<Rightarrow> real" where
  "mix_energy w eps1 eps2 sig1 sig2 =
     (case w of
        None \<Rightarrow> sqrt (eps1 * eps2)
      | Some g \<Rightarrow> g sig1 sig2 * sqrt (eps1 * eps2))"

definition mix_distance :: "real \<Rightarrow> real \<Rightarrow> real" where
  "mix_distance sig1 sig2 = (sig1 + sig2) / 2"

text \<open>
  The counting loop of the tail correction: how many local particles have type \<open>i\<close>
  and how many have type \<open>j\<close>.
\<close>

definition count_types :: "atom_t \<Rightarrow> nat \<Rightarrow> nat \<Rightarrow> real \<times> real" where
  "count_types atom i j =
     fold (\<lambda>k (c0, c1).
             (if atom_type atom k = i then c0 + 1 else c0,
              if atom_type atom k = j then c1 + 1 else c1))
       [0 ..< nlocal atom] (0, 0)"

text \<open>
  \<^verbatim>\<open>init_one\<close> is a sequence of four blocks, modelled one by one. The first mixes the
  parameters of a pair that was not set.
\<close>

definition mix_unset :: "pair_state \<Rightarrow> nat \<Rightarrow> nat \<Rightarrow> pair_state" where
  "mix_unset p i j =
     (if setflag p i j = 0 then
        (let p = p\<lparr>epsilon := tab_set (epsilon p) i j
                       (mix_energy (mix_weight p) (epsilon p i i) (epsilon p j j)
                          (sigma p i i) (sigma p j j))\<rparr>;
             p = p\<lparr>sigma := tab_set (sigma p) i j
                       (mix_distance (sigma p i i) (sigma p j j))\<rparr>
         in p\<lparr>cut_lj := tab_set (cut_lj p) i j
                       (mix_distance (cut_lj p i i) (cut_lj p j j))\<rparr>)
      else p)"

text \<open>The second block computes the coefficients of the pair \<open>(i, j)\<close>.\<close>

definition set_coefficients :: "pair_state \<Rightarrow> nat \<Rightarrow> nat \<Rightarrow> pair_state" where
  "set_coefficients p i j =
     (let p = p\<lparr>cut_ljsq := tab_set (cut_ljsq p) i j (cut_lj p i j * cut_lj p i j)\<rparr>;
          p = p\<lparr>lj1 := tab_set (lj1 p) i j (48 * epsilon p i j * sigma p i j ^ 12)\<rparr>;
          p = p\<lparr>lj2 := tab_set (lj2 p) i j (24 * epsilon p i j * sigma p i j ^ 6)\<rparr>;
          p = p\<lparr>lj3 := tab_set (lj3 p) i j (4 * epsilon p i j * sigma p i j ^ 12)\<rparr>;
          p = p\<lparr>lj4 := tab_set (lj4 p) i j (4 * epsilon p i j * sigma p i j ^ 6)\<rparr>
      in if offset_flag p \<noteq> 0 then
           (let ratio = sigma p i j / cut_lj p i j
            in p\<lparr>offset := tab_set (offset p) i j
                          (4 * epsilon p i j * (ratio ^ 12 - ratio ^ 6))\<rparr>)
         else p\<lparr>offset := tab_set (offset p) i j 0\<rparr>)"

text \<open>The third block copies them to \<open>(j, i)\<close>.\<close>

definition mirror_coefficients :: "pair_state \<Rightarrow> nat \<Rightarrow> nat \<Rightarrow> pair_state" where
  "mirror_coefficients p i j =
     (let p = p\<lparr>cut_ljsq := tab_set (cut_ljsq p) j i (cut_ljsq p i j)\<rparr>;
          p = p\<lparr>lj1 := tab_set (lj1 p) j i (lj1 p i j)\<rparr>;
          p = p\<lparr>lj2 := tab_set (lj2 p) j i (lj2 p i j)\<rparr>;
          p = p\<lparr>lj3 := tab_set (lj3 p) j i (lj3 p i j)\<rparr>;
          p = p\<lparr>lj4 := tab_set (lj4 p) j i (lj4 p i j)\<rparr>
      in p\<lparr>offset := tab_set (offset p) j i (offset p i j)\<rparr>)"

text \<open>
  The fourth block is the tail correction. The parameter \<open>allreduce\<close> is the host's sum
  of the two counts over all partitions.
\<close>

definition tail_correction ::
  "atom_t \<Rightarrow> (real \<times> real \<Rightarrow> real \<times> real) \<Rightarrow> pair_state \<Rightarrow> nat \<Rightarrow> nat \<Rightarrow> pair_state" where
  "tail_correction atom allreduce p i j =
     (if tail_flag p \<noteq> 0 then
        (case allreduce (count_types atom i j) of
           (all0, all1) \<Rightarrow>
             (let sig2 = sigma p i j * sigma p i j;
                  sig6 = sig2 * sig2 * sig2;
                  rc3 = cut_lj p i j * cut_lj p i j * cut_lj p i j;
                  rc6 = rc3 * rc3;
                  rc9 = rc3 * rc6
              in p\<lparr>etail_ij := 8 * pi * all0 * all1 * epsilon p i j *
                                 sig6 * (sig6 - 3 * rc6) / (9 * rc9),
                    ptail_ij := 16 * pi * all0 * all1 * epsilon p i j *
                                 sig6 * (2 * sig6 - 3 * rc6) / (9 * rc9)\<rparr>))
      else p)"

text \<open>
  \<^verbatim>\<open>init_one\<close> returns the new state and the cutoff it returns to the host, which it
  computes between the first and the second block.
\<close>

definition init_one ::
  "atom_t \<Rightarrow> (real \<times> real \<Rightarrow> real \<times> real) \<Rightarrow> pair_state \<Rightarrow> nat \<Rightarrow> nat \<Rightarrow> pair_state \<times> real" where
  "init_one atom allreduce p i j =
     (let p = mix_unset p i j;
          cut = (if cut_lj p i j > cut_coul p then cut_lj p i j else cut_coul p);
          p = set_coefficients p i j;
          p = mirror_coefficients p i j;
          p = tail_correction atom allreduce p i j
      in (p, cut))"

section \<open>Evaluating one pair\<close>

text \<open>
  \<^verbatim>\<open>single\<close> returns the energy and, through its reference argument, the force divided
  by the distance; the model returns the pair \<open>(eng, fforce)\<close>. The locals \<open>r6inv\<close>,
  \<open>r\<close>, \<open>vr\<close>, \<open>fr\<close> and \<open>prefactor\<close> are assigned in the source only inside the
  branch that uses them; they are pure, so the model binds them once.
\<close>

definition single ::
  "atom_t \<Rightarrow> force_t \<Rightarrow> pair_state \<Rightarrow> nat \<Rightarrow> nat \<Rightarrow> nat \<Rightarrow> nat \<Rightarrow> real \<Rightarrow> real \<Rightarrow> real
     \<Rightarrow> real \<times> real" where
  "single atom force p i j itype jtype rsq factor_coul factor_lj =
     (let r2inv = 1 / rsq;
          fforce = 0;
          r6inv = r2inv * r2inv * r2inv;
          fforce = (if rsq < cut_ljsq p itype jtype
                    then fforce + factor_lj * r6inv *
                           (lj1 p itype jtype * r6inv - lj2 p itype jtype)
                    else fforce);
          r = sqrt rsq;
          vr = fst (call_unshifted p r);
          fr = snd (call_unshifted p r);
          prefactor = factor_coul * qqrd2e force * atom_q atom i * atom_q atom j;
          fforce = (if rsq < cut_coulsq p
                    then fforce + prefactor * (fr - f_shift p) * r
                    else fforce);
          fforce = fforce * r2inv;
          eng = 0;
          eng = (if rsq < cut_ljsq p itype jtype
                 then eng + (factor_lj * r6inv *
                               (lj3 p itype jtype * r6inv - lj4 p itype jtype)
                             - offset p itype jtype)
                 else eng);
          eng = (if rsq < cut_coulsq p
                 then eng + prefactor * (vr + r * f_shift p - e_shift p)
                 else eng)
      in (eng, fforce))"

section \<open>The self-energy loop of the interaction pass\<close>

text \<open>
  The host's ledger is written through \<^verbatim>\<open>ev_tally\<close>; a call is recorded with its ten
  arguments, in the order of the host's signature.
\<close>

record ev_tally_call =
  tally_i :: nat
  tally_j :: nat
  tally_nlocal :: nat
  tally_newton_pair :: int
  tally_evdwl :: real
  tally_ecoul :: real
  tally_fpair :: real
  tally_delx :: real
  tally_dely :: real
  tally_delz :: real

text \<open>
  The first loop of \<^verbatim>\<open>compute\<close>: when energies are requested and the self term is
  enabled, one call per local particle.
\<close>

definition compute_self_energy ::
  "atom_t \<Rightarrow> force_t \<Rightarrow> pair_state \<Rightarrow> int \<Rightarrow> ev_tally_call list" where
  "compute_self_energy atom force p eflag =
     (if eflag \<noteq> 0 \<and> self_flag p \<noteq> 0 then
        map (\<lambda>i. let qtmp = qqrd2e force * atom_q atom i
                  in \<lparr>tally_i = i, tally_j = i, tally_nlocal = nlocal atom,
                      tally_newton_pair = 0, tally_evdwl = 0,
                      tally_ecoul = e_self p * qtmp * qtmp, tally_fpair = 0,
                      tally_delx = 0, tally_dely = 0, tally_delz = 0\<rparr>)
          [0 ..< nlocal atom]
      else [])"

section \<open>Numerical tools\<close>

text \<open>
  The terms of the power series of the inverse tangent, used to enclose \<open>\<pi>\<close> when the
  constant \<open>two_pis\<close> is compared with \<open>2/\<surd>\<pi>\<close>.
\<close>

definition arctan_term :: "real \<Rightarrow> nat \<Rightarrow> real" where
  "arctan_term x k = (- 1) ^ k * (1 / real (k * 2 + 1) * x ^ (k * 2 + 1))"

section \<open>Concrete states used in examples\<close>

text \<open>A state before allocation whose memory holds zero everywhere.\<close>

definition zeroed :: pair_state where
  "zeroed =
     \<lparr>allocated = False, setflag = (\<lambda>i j. 0), cutsq = (\<lambda>i j. 0), cut_lj = (\<lambda>i j. 0),
      cut_ljsq = (\<lambda>i j. 0), epsilon = (\<lambda>i j. 0), sigma = (\<lambda>i j. 0), lj1 = (\<lambda>i j. 0),
      lj2 = (\<lambda>i j. 0), lj3 = (\<lambda>i j. 0), lj4 = (\<lambda>i j. 0), offset = (\<lambda>i j. 0),
      alpha = 0, cut_lj_global = 0, cut_coul = 0, cut_coulsq = 0, e_shift = 0, f_shift = 0,
      e_self = 0, self_flag = 1, unshifted_flag = 3, single_enable = 0,
      unshifted = Unshifted_erfc, offset_flag = 0, tail_flag = 0, mix_weight = None,
      etail_ij = 0, ptail_ij = 0\<rparr>"

text \<open>A system with two particle types and no particle.\<close>

definition two_types :: atom_t where
  "two_types =
     \<lparr>q_flag = 1, atom_q = (\<lambda>k. 0), atom_type = (\<lambda>k. 1), nlocal = 0, ntypes = 2\<rparr>"

text \<open>
  A host whose parsers read the few words used in the examples: a number is read as
  itself, the range \<^verbatim>\<open>1*2\<close> as \<open>1 .. 2\<close> and a single type as itself.
\<close>

definition example_host :: force_t where
  "example_host =
     \<lparr>qqrd2e = 1,
      numeric = (\<lambda>s. if s = ''0.5'' then Some 0.5
                      else if s = ''1.2'' then Some 1.2
                      else if s = ''0.2'' then Some 0.2
                      else if s = ''1.0'' then Some 1
                      else if s = ''2.5'' then Some 2.5
                      else if s = ''3.0'' then Some 3
                      else None),
      bounds = (\<lambda>s n. if s = ''1*2'' then Some (1, 2)
                       else if s = ''1'' then Some (1, 1)
                       else if s = ''2'' then Some (2, 2)
                       else None)\<rparr>"

text \<open>Two particles of type \<open>1\<close> with charges \<open>+1\<close> and \<open>-1\<close>.\<close>

definition two_charges :: atom_t where
  "two_charges =
     \<lparr>q_flag = 1, atom_q = (\<lambda>k. if k = 0 then 1 else - 1), atom_type = (\<lambda>k. 1),
      nlocal = 2, ntypes = 1\<rparr>"

text \<open>
  A run of the setup on them: the global settings \<^verbatim>\<open>0.2 2.5 self no damp none\<close>, the
  coefficients \<^verbatim>\<open>1 1 1.0 1.0\<close>, the calibration, and \<^verbatim>\<open>init_one\<close> on the pair \<open>(1, 1)\<close>.
\<close>

definition scenario :: "error + pair_state" where
  "scenario =
     (case settings two_charges example_host zeroed
             [''0.2'', ''2.5'', ''self'', ''no'', ''damp'', ''none''] of
        Inl e \<Rightarrow> Inl e
      | Inr p \<Rightarrow>
         (case coeff two_charges example_host p [''1'', ''1'', ''1.0'', ''1.0''] of
            Inl e \<Rightarrow> Inl e
          | Inr p \<Rightarrow>
             (case init_style two_charges example_host p of
                Inl e \<Rightarrow> Inl e
              | Inr p \<Rightarrow> Inr (fst (init_one two_charges (\<lambda>c. c) p 1 1)))))"

section \<open>Auxiliary facts\<close>

text \<open>A kernel reads the damping strength and nothing else of the state.\<close>

lemma call_unshifted_frame:
  "call_unshifted (p\<lparr>cut_coulsq := a\<rparr>) r = call_unshifted p r"
  "call_unshifted (p\<lparr>e_shift := a\<rparr>) r = call_unshifted p r"
  "call_unshifted (p\<lparr>f_shift := a\<rparr>) r = call_unshifted p r"
  "call_unshifted (p\<lparr>e_self := a\<rparr>) r = call_unshifted p r"
  by (simp_all add: call_unshifted_def unshifted_none_def unshifted_debye_def
      unshifted_gauss_def unshifted_erfc_def split: kernel.split)

text \<open>
  Partial sums of the alternating series enclose the inverse tangent; with Machin's
  formula they enclose \<open>\<pi>\<close> to fifteen digits.
\<close>

lemma arctan_partial_sums:
  assumes "0 < x" "x \<le> 1"
  shows "(\<Sum>k<2 * n. arctan_term x k) \<le> arctan x"
    and "arctan x \<le> (\<Sum>k<2 * n + 1. arctan_term x k)"
proof -
  have ax: "\<bar>x\<bar> \<le> 1" using assms by simp
  have pos: "0 < 1 / real (0 * 2 + 1) * x ^ (0 * 2 + 1)" using assms by simp
  have "(\<Sum>k. (- 1) ^ k * (1 / real (k * 2 + 1) * x ^ (k * 2 + 1)))
        \<in> {\<Sum>k<2 * n. (- 1) ^ k * (1 / real (k * 2 + 1) * x ^ (k * 2 + 1)) ..
            \<Sum>k<2 * n + 1. (- 1) ^ k * (1 / real (k * 2 + 1) * x ^ (k * 2 + 1))}"
    using summable_Leibniz(2)[OF zeroseq_arctan_series[OF ax] monoseq_arctan_series[OF ax]] pos
    by blast
  then show "(\<Sum>k<2 * n. arctan_term x k) \<le> arctan x"
    and "arctan x \<le> (\<Sum>k<2 * n + 1. arctan_term x k)"
    unfolding arctan_term_def arctan_series[OF ax] by simp_all
qed

lemma arctan_fifth_upper: "arctan (1 / 5) \<le> (\<Sum>k<11. arctan_term (1 / 5) k)"
  using arctan_partial_sums(2)[of "1 / 5" 5] by simp

lemma arctan_fifth_lower: "(\<Sum>k<10. arctan_term (1 / 5) k) \<le> arctan (1 / 5)"
  using arctan_partial_sums(1)[of "1 / 5" 5] by simp

lemma arctan_239_lower: "(\<Sum>k<4. arctan_term (1 / 239) k) \<le> arctan (1 / 239)"
  using arctan_partial_sums(1)[of "1 / 239" 2] by simp

lemma arctan_239_upper: "arctan (1 / 239) \<le> (\<Sum>k<3. arctan_term (1 / 239) k)"
  using arctan_partial_sums(2)[of "1 / 239" 1] by simp

lemma sum_fifth_11:
  "(\<Sum>k<11. arctan_term (1 / 5) k) < 19739555984988078 / 100000000000000000"
  by (simp add: arctan_term_def eval_nat_numeral)

lemma sum_fifth_10:
  "19739555984988066 / 100000000000000000 < (\<Sum>k<10. arctan_term (1 / 5) k)"
  by (simp add: arctan_term_def eval_nat_numeral)

lemma sum_239_4:
  "41840760020747237 / 10000000000000000000 < (\<Sum>k<4. arctan_term (1 / 239) k)"
  by (simp add: arctan_term_def eval_nat_numeral)

lemma sum_239_3:
  "(\<Sum>k<3. arctan_term (1 / 239) k) < 41840760020747271 / 10000000000000000000"
  by (simp add: arctan_term_def eval_nat_numeral)

lemma pi_upper: "pi < 31415926535897936 / 10000000000000000"
proof -
  have "pi = 16 * arctan (1 / 5) - 4 * arctan (1 / 239)"
    using machin by simp
  then show ?thesis
    using arctan_fifth_upper sum_fifth_11 arctan_239_lower sum_239_4 by linarith
qed

lemma pi_lower: "31415926535897916 / 10000000000000000 < pi"
proof -
  have "pi = 16 * arctan (1 / 5) - 4 * arctan (1 / 239)"
    using machin by simp
  then show ?thesis
    using arctan_fifth_lower sum_fifth_10 arctan_239_upper sum_239_3 by linarith
qed

text \<open>The constant of the file lies just below \<open>2/\<surd>\<pi>\<close>.\<close>

lemma two_pis_below: "two_pis < 2 / sqrt pi"
proof -
  have "pi < (2 / two_pis)\<^sup>2"
    using pi_upper by (simp add: two_pis_def power2_eq_square)
  then have "sqrt pi < 2 / two_pis"
    by (intro real_less_lsqrt) (simp_all add: two_pis_def)
  moreover have "0 < sqrt pi" by simp
  ultimately show ?thesis
    by (simp add: two_pis_def field_simps)
qed

lemma two_pis_close: "2 / sqrt pi < two_pis + 1 / 10 ^ 14"
proof -
  have "(2 / (two_pis + 1 / 10 ^ 14))\<^sup>2 < pi"
    using pi_lower by (simp add: two_pis_def power2_eq_square)
  then have "2 / (two_pis + 1 / 10 ^ 14) < sqrt pi"
    by (intro real_less_rsqrt)
  moreover have "0 < sqrt pi" by simp
  ultimately show ?thesis
    by (simp add: two_pis_def field_simps)
qed

lemma init_parameters_e_self_erfc:
  assumes "unshifted_flag p = 3"
  shows "e_self (init_parameters force p) =
         - 0.5 * (e_shift (init_parameters force p) + two_pis * alpha p) / qqrd2e force"
  using assms by (simp add: init_parameters_def Let_def case_prod_beta)

text \<open>The blocks of \<open>init_one\<close> as single updates of the state.\<close>

lemma mix_unset_eq:
  "mix_unset p i j =
     (if setflag p i j = 0 then
        p\<lparr>epsilon := tab_set (epsilon p) i j
                        (mix_energy (mix_weight p) (epsilon p i i) (epsilon p j j)
                           (sigma p i i) (sigma p j j)),
          sigma := tab_set (sigma p) i j (mix_distance (sigma p i i) (sigma p j j)),
          cut_lj := tab_set (cut_lj p) i j (mix_distance (cut_lj p i i) (cut_lj p j j))\<rparr>
      else p)"
  by (simp add: mix_unset_def Let_def)

lemma set_coefficients_eq:
  "set_coefficients p i j =
     p\<lparr>cut_ljsq := tab_set (cut_ljsq p) i j (cut_lj p i j * cut_lj p i j),
       lj1 := tab_set (lj1 p) i j (48 * epsilon p i j * sigma p i j ^ 12),
       lj2 := tab_set (lj2 p) i j (24 * epsilon p i j * sigma p i j ^ 6),
       lj3 := tab_set (lj3 p) i j (4 * epsilon p i j * sigma p i j ^ 12),
       lj4 := tab_set (lj4 p) i j (4 * epsilon p i j * sigma p i j ^ 6),
       offset := tab_set (offset p) i j
                   (if offset_flag p \<noteq> 0
                    then 4 * epsilon p i j *
                           ((sigma p i j / cut_lj p i j) ^ 12 - (sigma p i j / cut_lj p i j) ^ 6)
                    else 0)\<rparr>"
  unfolding set_coefficients_def Let_def
  by (cases "offset_flag p = 0") simp_all

lemma mirror_coefficients_eq:
  "mirror_coefficients p i j =
     p\<lparr>cut_ljsq := tab_set (cut_ljsq p) j i (cut_ljsq p i j),
       lj1 := tab_set (lj1 p) j i (lj1 p i j),
       lj2 := tab_set (lj2 p) j i (lj2 p i j),
       lj3 := tab_set (lj3 p) j i (lj3 p i j),
       lj4 := tab_set (lj4 p) j i (lj4 p i j),
       offset := tab_set (offset p) j i (offset p i j)\<rparr>"
  by (simp add: mirror_coefficients_def Let_def)

lemma tail_correction_frame:
  "epsilon (tail_correction atom allreduce p i j) = epsilon p"
  "sigma (tail_correction atom allreduce p i j) = sigma p"
  "cut_lj (tail_correction atom allreduce p i j) = cut_lj p"
  "cut_ljsq (tail_correction atom allreduce p i j) = cut_ljsq p"
  "lj1 (tail_correction atom allreduce p i j) = lj1 p"
  "lj2 (tail_correction atom allreduce p i j) = lj2 p"
  "lj3 (tail_correction atom allreduce p i j) = lj3 p"
  "lj4 (tail_correction atom allreduce p i j) = lj4 p"
  "offset (tail_correction atom allreduce p i j) = offset p"
  "setflag (tail_correction atom allreduce p i j) = setflag p"
  by (simp_all add: tail_correction_def Let_def case_prod_beta)

text \<open>Reading a table after a write, and loops that leave a field alone.\<close>

lemma tab_set_apply: "tab_set t i j v a b = (if a = i \<and> b = j then v else t a b)"
  by (simp add: tab_set_def)

lemma fold_frame:
  assumes "\<And>x s. g (f x s) = g s"
  shows "g (fold f xs s) = g s"
  using assms by (induction xs arbitrary: s) simp_all

text \<open>The loops of \<^verbatim>\<open>allocate\<close> in closed form.\<close>

lemma allocate_row:
  "setflag (fold (\<lambda>j p. p\<lparr>setflag := tab_set (setflag p) i j 0\<rparr>) js p) a b =
     (if a = i \<and> b \<in> set js then 0 else setflag p a b)"
  by (induction js arbitrary: p) (auto simp: tab_set_apply)

lemma allocate_rows:
  "setflag (fold (\<lambda>i. fold (\<lambda>j p. p\<lparr>setflag := tab_set (setflag p) i j 0\<rparr>) (js i)) is p) a b =
     (if a \<in> set is \<and> b \<in> set (js a) then 0 else setflag p a b)"
  by (induction "is" arbitrary: p) (auto simp: allocate_row)

lemma allocate_setflag:
  "setflag (allocate atom p) i j =
     (if 1 \<le> i \<and> i \<le> j \<and> j \<le> ntypes atom then 0 else setflag p i j)"
  by (auto simp: allocate_def Let_def allocate_rows)

lemma fold2_frame:
  assumes "\<And>i j s. g (f i j s) = g s"
  shows "g (fold (\<lambda>i. fold (f i) (js i)) is s) = g s"
  by (intro fold_frame assms)

lemma allocate_frame:
  "allocated (allocate atom p) = True"
  "epsilon (allocate atom p) = epsilon p"
  "sigma (allocate atom p) = sigma p"
  "cut_lj (allocate atom p) = cut_lj p"
  "cut_lj_global (allocate atom p) = cut_lj_global p"
  "mix_weight (allocate atom p) = mix_weight p"
  unfolding allocate_def Let_def
  by (simp_all add: fold2_frame [where g = allocated] fold2_frame [where g = epsilon]
      fold2_frame [where g = sigma] fold2_frame [where g = cut_lj]
      fold2_frame [where g = cut_lj_global] fold2_frame [where g = mix_weight])

text \<open>The loops of \<^verbatim>\<open>coeff\<close> in closed form, with the counter.\<close>

lemma coeff_row:
  fixes e s c :: real
  defines "step \<equiv> (\<lambda>i j (p :: pair_state, count :: int).
     (p\<lparr>epsilon := tab_set (epsilon p) i j e,
        sigma := tab_set (sigma p) i j s,
        cut_lj := tab_set (cut_lj p) i j c,
        setflag := tab_set (setflag p) i j 1\<rparr>,
      count + 1))"
  shows "epsilon (fst (fold (step i) js pc)) a b =
           (if a = i \<and> b \<in> set js then e else epsilon (fst pc) a b)"
    and "sigma (fst (fold (step i) js pc)) a b =
           (if a = i \<and> b \<in> set js then s else sigma (fst pc) a b)"
    and "cut_lj (fst (fold (step i) js pc)) a b =
           (if a = i \<and> b \<in> set js then c else cut_lj (fst pc) a b)"
    and "setflag (fst (fold (step i) js pc)) a b =
           (if a = i \<and> b \<in> set js then 1 else setflag (fst pc) a b)"
    and "snd (fold (step i) js pc) = snd pc + int (length js)"
  by (induction js arbitrary: pc; auto simp: tab_set_apply step_def split_beta)+

lemma coeff_rows:
  fixes e s c :: real
  defines "step \<equiv> (\<lambda>i j (p :: pair_state, count :: int).
     (p\<lparr>epsilon := tab_set (epsilon p) i j e,
        sigma := tab_set (sigma p) i j s,
        cut_lj := tab_set (cut_lj p) i j c,
        setflag := tab_set (setflag p) i j 1\<rparr>,
      count + 1))"
  shows "epsilon (fst (fold (\<lambda>i. fold (step i) (js i)) is pc)) a b =
           (if a \<in> set is \<and> b \<in> set (js a) then e else epsilon (fst pc) a b)"
    and "sigma (fst (fold (\<lambda>i. fold (step i) (js i)) is pc)) a b =
           (if a \<in> set is \<and> b \<in> set (js a) then s else sigma (fst pc) a b)"
    and "cut_lj (fst (fold (\<lambda>i. fold (step i) (js i)) is pc)) a b =
           (if a \<in> set is \<and> b \<in> set (js a) then c else cut_lj (fst pc) a b)"
    and "setflag (fst (fold (\<lambda>i. fold (step i) (js i)) is pc)) a b =
           (if a \<in> set is \<and> b \<in> set (js a) then 1 else setflag (fst pc) a b)"
    and "snd (fold (\<lambda>i. fold (step i) (js i)) is pc) =
           snd pc + (\<Sum>i\<leftarrow>is. int (length (js i)))"
  unfolding step_def
  by (induction "is" arbitrary: pc; auto simp: coeff_row)+

lemma coeff_loop_tables:
  "epsilon (fst (coeff_loop p ilo ihi jlo jhi e s c)) i j =
     (if ilo \<le> i \<and> i \<le> ihi \<and> jlo \<le> j \<and> i \<le> j \<and> j \<le> jhi then e else epsilon p i j)"
  "sigma (fst (coeff_loop p ilo ihi jlo jhi e s c)) i j =
     (if ilo \<le> i \<and> i \<le> ihi \<and> jlo \<le> j \<and> i \<le> j \<and> j \<le> jhi then s else sigma p i j)"
  "cut_lj (fst (coeff_loop p ilo ihi jlo jhi e s c)) i j =
     (if ilo \<le> i \<and> i \<le> ihi \<and> jlo \<le> j \<and> i \<le> j \<and> j \<le> jhi then c else cut_lj p i j)"
  "setflag (fst (coeff_loop p ilo ihi jlo jhi e s c)) i j =
     (if ilo \<le> i \<and> i \<le> ihi \<and> jlo \<le> j \<and> i \<le> j \<and> j \<le> jhi then 1 else setflag p i j)"
  unfolding coeff_loop_def
  by (auto simp: coeff_rows)

lemma coeff_loop_count:
  "snd (coeff_loop p ilo ihi jlo jhi e s c) =
     (\<Sum>i\<leftarrow>[ilo ..< ihi + 1]. int (jhi + 1 - max jlo i))"
  unfolding coeff_loop_def
  by (simp only: coeff_rows length_upt snd_conv add.left_neutral)

text \<open>
  The keyword loop of \<^verbatim>\<open>settings\<close> touches the two flags only, and its last block
  touches \<open>cut_lj\<close> only.
\<close>

lemma keyword_loop_frame:
  "keyword_loop p ws = Inr p' \<Longrightarrow>
     allocated p' = allocated p \<and> setflag p' = setflag p \<and> cut_lj p' = cut_lj p
     \<and> epsilon p' = epsilon p \<and> sigma p' = sigma p \<and> cut_lj_global p' = cut_lj_global p"
  by (induction p ws rule: keyword_loop.induct) (auto split: if_splits)

lemma reset_row:
  fixes i :: nat
  defines "step \<equiv> (\<lambda>i j p. if setflag p i j \<noteq> 0
                                then p\<lparr>cut_lj := tab_set (cut_lj p) i j (cut_lj_global p)\<rparr>
                                else p)"
  shows "cut_lj (fold (step i) js p) a b =
           (if a = i \<and> b \<in> set js \<and> setflag p a b \<noteq> 0 then cut_lj_global p else cut_lj p a b)"
    and "setflag (fold (step i) js p) = setflag p"
    and "cut_lj_global (fold (step i) js p) = cut_lj_global p"
    and "epsilon (fold (step i) js p) = epsilon p"
    and "sigma (fold (step i) js p) = sigma p"
proof -
  show sf: "setflag (fold (step i) js p) = setflag p" for js p
    by (rule fold_frame) (simp add: step_def)
  show cg: "cut_lj_global (fold (step i) js p) = cut_lj_global p" for js p
    by (rule fold_frame) (simp add: step_def)
  show "epsilon (fold (step i) js p) = epsilon p"
    by (rule fold_frame) (simp add: step_def)
  show "sigma (fold (step i) js p) = sigma p"
    by (rule fold_frame) (simp add: step_def)
  show "cut_lj (fold (step i) js p) a b =
           (if a = i \<and> b \<in> set js \<and> setflag p a b \<noteq> 0 then cut_lj_global p else cut_lj p a b)"
    by (induction js arbitrary: p) (auto simp: step_def tab_set_apply)
qed

lemma reset_rows:
  defines "step \<equiv> (\<lambda>i j p. if setflag p i j \<noteq> 0
                                then p\<lparr>cut_lj := tab_set (cut_lj p) i j (cut_lj_global p)\<rparr>
                                else p)"
  shows "cut_lj (fold (\<lambda>i. fold (step i) (js i)) is p) a b =
           (if a \<in> set is \<and> b \<in> set (js a) \<and> setflag p a b \<noteq> 0
            then cut_lj_global p else cut_lj p a b)"
    and "setflag (fold (\<lambda>i. fold (step i) (js i)) is p) = setflag p"
    and "cut_lj_global (fold (\<lambda>i. fold (step i) (js i)) is p) = cut_lj_global p"
    and "epsilon (fold (\<lambda>i. fold (step i) (js i)) is p) = epsilon p"
    and "sigma (fold (\<lambda>i. fold (step i) (js i)) is p) = sigma p"
proof -
  show sf: "setflag (fold (\<lambda>i. fold (step i) (js i)) is p) = setflag p" for "is" p
    by (rule fold2_frame) (simp add: step_def)
  show cg: "cut_lj_global (fold (\<lambda>i. fold (step i) (js i)) is p) = cut_lj_global p" for "is" p
    by (rule fold2_frame) (simp add: step_def)
  show "epsilon (fold (\<lambda>i. fold (step i) (js i)) is p) = epsilon p"
    by (rule fold2_frame) (simp add: step_def)
  show "sigma (fold (\<lambda>i. fold (step i) (js i)) is p) = sigma p"
    by (rule fold2_frame) (simp add: step_def)
  show "cut_lj (fold (\<lambda>i. fold (step i) (js i)) is p) a b =
           (if a \<in> set is \<and> b \<in> set (js a) \<and> setflag p a b \<noteq> 0
            then cut_lj_global p else cut_lj p a b)"
    unfolding step_def
    by (induction "is" arbitrary: p) (auto simp: reset_row)
qed

lemma reset_cutoffs_fields:
  "cut_lj (reset_cutoffs atom p) i j =
     (if allocated p \<and> 1 \<le> i \<and> i < j \<and> j \<le> ntypes atom \<and> setflag p i j \<noteq> 0
      then cut_lj_global p else cut_lj p i j)"
  "setflag (reset_cutoffs atom p) = setflag p"
  "cut_lj_global (reset_cutoffs atom p) = cut_lj_global p"
  "epsilon (reset_cutoffs atom p) = epsilon p"
  "sigma (reset_cutoffs atom p) = sigma p"
  unfolding reset_cutoffs_def
  by (auto simp: reset_rows)

lemma settings_Inr:
  assumes "settings atom force p arg = Inr p'"
  obtains p2 where "p' = reset_cutoffs atom p2"
    and "numeric force (arg ! 1) = Some (cut_lj_global p2)"
    and "allocated p2 = allocated p" and "setflag p2 = setflag p" and "cut_lj p2 = cut_lj p"
    and "epsilon p2 = epsilon p" and "sigma p2 = sigma p"
proof -
  from assms obtain a c cc ws p1 where
      c: "numeric force (arg ! 1) = Some c"
    and k: "keyword_loop (p\<lparr>alpha := a, cut_lj_global := c, cut_coul := cc\<rparr>) ws = Inr p1"
    and p': "p' = reset_cutoffs atom (p1\<lparr>single_enable := (if self_flag p1 = 0 then 1 else 0)\<rparr>)"
    unfolding settings_def Let_def
    by (fastforce simp del: keyword_loop.simps split: if_splits option.splits sum.splits prod.splits)
  from keyword_loop_frame [OF k] c p' show ?thesis
    by (intro that [of "p1\<lparr>single_enable := (if self_flag p1 = 0 then 1 else 0)\<rparr>"]) simp_all
qed


text \<open>The entries of the tables after each block of \<open>init_one\<close>.\<close>

lemma set_coefficients_fields:
  "epsilon (set_coefficients p i j) = epsilon p"
  "sigma (set_coefficients p i j) = sigma p"
  "cut_lj (set_coefficients p i j) = cut_lj p"
  "cut_ljsq (set_coefficients p i j) i j = cut_lj p i j * cut_lj p i j"
  "lj1 (set_coefficients p i j) i j = 48 * epsilon p i j * sigma p i j ^ 12"
  "lj2 (set_coefficients p i j) i j = 24 * epsilon p i j * sigma p i j ^ 6"
  "lj3 (set_coefficients p i j) i j = 4 * epsilon p i j * sigma p i j ^ 12"
  "lj4 (set_coefficients p i j) i j = 4 * epsilon p i j * sigma p i j ^ 6"
  "offset (set_coefficients p i j) i j =
     (if offset_flag p \<noteq> 0
      then 4 * epsilon p i j *
             ((sigma p i j / cut_lj p i j) ^ 12 - (sigma p i j / cut_lj p i j) ^ 6)
      else 0)"
  unfolding set_coefficients_eq
  by (simp_all add: tab_set_apply)

lemma mirror_coefficients_fields:
  "epsilon (mirror_coefficients p i j) = epsilon p"
  "sigma (mirror_coefficients p i j) = sigma p"
  "cut_lj (mirror_coefficients p i j) = cut_lj p"
  "cut_ljsq (mirror_coefficients p i j) i j = cut_ljsq p i j"
  "cut_ljsq (mirror_coefficients p i j) j i = cut_ljsq p i j"
  "lj1 (mirror_coefficients p i j) i j = lj1 p i j"
  "lj1 (mirror_coefficients p i j) j i = lj1 p i j"
  "lj2 (mirror_coefficients p i j) i j = lj2 p i j"
  "lj2 (mirror_coefficients p i j) j i = lj2 p i j"
  "lj3 (mirror_coefficients p i j) i j = lj3 p i j"
  "lj3 (mirror_coefficients p i j) j i = lj3 p i j"
  "lj4 (mirror_coefficients p i j) i j = lj4 p i j"
  "lj4 (mirror_coefficients p i j) j i = lj4 p i j"
  "offset (mirror_coefficients p i j) i j = offset p i j"
  "offset (mirror_coefficients p i j) j i = offset p i j"
  unfolding mirror_coefficients_eq
  by (simp_all add: tab_set_apply)

lemma mix_unset_entry:
  "epsilon (mix_unset p i j) i j =
     (if setflag p i j = 0
      then mix_energy (mix_weight p) (epsilon p i i) (epsilon p j j) (sigma p i i) (sigma p j j)
      else epsilon p i j)"
  "sigma (mix_unset p i j) i j =
     (if setflag p i j = 0 then mix_distance (sigma p i i) (sigma p j j) else sigma p i j)"
  "cut_lj (mix_unset p i j) i j =
     (if setflag p i j = 0 then mix_distance (cut_lj p i i) (cut_lj p j j) else cut_lj p i j)"
  "offset_flag (mix_unset p i j) = offset_flag p"
  "cut_coul (mix_unset p i j) = cut_coul p"
  by (simp_all add: mix_unset_eq tab_set_apply)

lemma mix_unset_other:
  "a \<noteq> i \<or> b \<noteq> j \<Longrightarrow> epsilon (mix_unset p i j) a b = epsilon p a b"
  "a \<noteq> i \<or> b \<noteq> j \<Longrightarrow> sigma (mix_unset p i j) a b = sigma p a b"
  "a \<noteq> i \<or> b \<noteq> j \<Longrightarrow> cut_lj (mix_unset p i j) a b = cut_lj p a b"
  by (auto simp add: mix_unset_eq tab_set_apply)

lemma init_one_fst:
  "fst (init_one atom allreduce p i j) =
     tail_correction atom allreduce
       (mirror_coefficients (set_coefficients (mix_unset p i j) i j) i j) i j"
  by (simp add: init_one_def Let_def)

lemma init_one_snd:
  "snd (init_one atom allreduce p i j) =
     max (cut_lj (mix_unset p i j) i j) (cut_coul p)"
  by (simp add: init_one_def Let_def max_def mix_unset_entry(5))

lemmas init_one_fields =
  init_one_fst tail_correction_frame mirror_coefficients_fields set_coefficients_fields


text \<open>\<^verbatim>\<open>coeff\<close> once its arguments are parsed, and the fields its loop leaves alone.\<close>

lemma coeff_parsed:
  assumes "length arg = 4 \<or> length arg = 5"
    and "bounds force (arg ! 0) (ntypes atom) = Some (ilo, ihi)"
    and "bounds force (arg ! 1) (ntypes atom) = Some (jlo, jhi)"
    and "numeric force (arg ! 2) = Some epsilon_one"
    and "numeric force (arg ! 3) = Some sigma_one"
    and "(if length arg = 5 then numeric force (arg ! 4) else Some (cut_lj_global p))
           = Some cut_lj_one"
  shows "coeff atom force p arg =
     (if snd (coeff_loop (if allocated p then p else allocate atom p)
                ilo ihi jlo jhi epsilon_one sigma_one cut_lj_one) = 0
      then Inl Incorrect_args_for_pair_coefficients
      else Inr (fst (coeff_loop (if allocated p then p else allocate atom p)
                       ilo ihi jlo jhi epsilon_one sigma_one cut_lj_one)))"
  using assms
  by (auto simp: coeff_def Let_def allocate_frame case_prod_beta)

lemma coeff_loop_frame:
  "mix_weight (fst (coeff_loop p ilo ihi jlo jhi e s c)) = mix_weight p"
  "offset_flag (fst (coeff_loop p ilo ihi jlo jhi e s c)) = offset_flag p"
  "cut_lj_global (fst (coeff_loop p ilo ihi jlo jhi e s c)) = cut_lj_global p"
  "allocated (fst (coeff_loop p ilo ihi jlo jhi e s c)) = allocated p"
  unfolding coeff_loop_def
  by (simp_all add: fold2_frame [where g = "\<lambda>pc. mix_weight (fst pc)"]
      fold2_frame [where g = "\<lambda>pc. offset_flag (fst pc)"]
      fold2_frame [where g = "\<lambda>pc. cut_lj_global (fst pc)"]
      fold2_frame [where g = "\<lambda>pc. allocated (fst pc)"] split_beta)

text \<open>Facts about the concrete states used in the examples.\<close>

lemma upt_two_types: "[1 ..< 2 + 1] = [1, 2 :: nat]" "[Suc 0 ..< 3] = [Suc 0, 2]"
  by (simp_all add: upt_rec)

lemma zeroed_fields:
  "allocated zeroed = False" "setflag zeroed i j = 0" "epsilon zeroed i j = 0"
  "sigma zeroed i j = 0" "cut_lj zeroed i j = 0" "mix_weight zeroed = None"
  "offset_flag zeroed = 0" "tail_flag zeroed = 0" "cut_lj_global zeroed = 0"
  by (simp_all add: zeroed_def)

lemma two_types_args:
  "length [''1*2'', ''1*2'', ''0.5'', ''1.2''] = 4 \<or> length [''1*2'', ''1*2'', ''0.5'', ''1.2''] = 5"
  "bounds example_host ([''1*2'', ''1*2'', ''0.5'', ''1.2''] ! 0) (ntypes two_types) = Some (1, 2)"
  "bounds example_host ([''1*2'', ''1*2'', ''0.5'', ''1.2''] ! 1) (ntypes two_types) = Some (1, 2)"
  "numeric example_host ([''1*2'', ''1*2'', ''0.5'', ''1.2''] ! 2) = Some 0.5"
  "numeric example_host ([''1*2'', ''1*2'', ''0.5'', ''1.2''] ! 3) = Some 1.2"
  "(if length [''1*2'', ''1*2'', ''0.5'', ''1.2''] = 5
    then numeric example_host ([''1*2'', ''1*2'', ''0.5'', ''1.2''] ! 4)
    else Some (cut_lj_global (zeroed\<lparr>cut_lj_global := 2.5\<rparr>))) = Some 2.5"
  by (simp_all add: example_host_def two_types_def)

lemma settings_example:
  "settings two_types example_host
     (zeroed\<lparr>allocated := True, setflag := (\<lambda>i j. if i \<le> j then 1 else 0),
             cut_lj := (\<lambda>i j. 2.5)\<rparr>) [''0.2'', ''3.0'']
   = Inr (reset_cutoffs two_types
       (zeroed\<lparr>allocated := True, setflag := (\<lambda>i j. if i \<le> j then 1 else 0),
               cut_lj := (\<lambda>i j. 2.5), alpha := 0.2, cut_lj_global := 3, cut_coul := 3,
               single_enable := 0\<rparr>))"
  by (simp add: settings_def example_host_def Let_def zeroed_def)

text \<open>Fields that the setup steps leave alone, and the state the scenario ends in.\<close>

lemma coeff_loop_scalars:
  "alpha (fst (coeff_loop p ilo ihi jlo jhi e s c)) = alpha p"
  "cut_coul (fst (coeff_loop p ilo ihi jlo jhi e s c)) = cut_coul p"
  "unshifted_flag (fst (coeff_loop p ilo ihi jlo jhi e s c)) = unshifted_flag p"
  "tail_flag (fst (coeff_loop p ilo ihi jlo jhi e s c)) = tail_flag p"
  unfolding coeff_loop_def
  by (simp_all add: fold2_frame [where g = "\<lambda>pc. alpha (fst pc)"]
      fold2_frame [where g = "\<lambda>pc. cut_coul (fst pc)"]
      fold2_frame [where g = "\<lambda>pc. unshifted_flag (fst pc)"]
      fold2_frame [where g = "\<lambda>pc. tail_flag (fst pc)"] split_beta)

lemma allocate_scalars:
  "alpha (allocate atom p) = alpha p"
  "cut_coul (allocate atom p) = cut_coul p"
  "unshifted_flag (allocate atom p) = unshifted_flag p"
  "offset_flag (allocate atom p) = offset_flag p"
  "tail_flag (allocate atom p) = tail_flag p"
  unfolding allocate_def Let_def
  by (simp_all add: fold2_frame [where g = alpha] fold2_frame [where g = cut_coul]
      fold2_frame [where g = unshifted_flag] fold2_frame [where g = offset_flag]
      fold2_frame [where g = tail_flag])

lemma init_parameters_tables:
  "epsilon (init_parameters force p) = epsilon p"
  "sigma (init_parameters force p) = sigma p"
  "cut_lj (init_parameters force p) = cut_lj p"
  "setflag (init_parameters force p) = setflag p"
  "offset_flag (init_parameters force p) = offset_flag p"
  "tail_flag (init_parameters force p) = tail_flag p"
  "mix_weight (init_parameters force p) = mix_weight p"
  "cut_coul (init_parameters force p) = cut_coul p"
  "cut_coulsq (init_parameters force p) = cut_coul p * cut_coul p"
  by (simp_all add: init_parameters_def Let_def case_prod_beta)

lemma init_parameters_none:
  assumes "unshifted_flag p = 0"
  shows "unshifted (init_parameters force p) = Unshifted_none"
    and "f_shift (init_parameters force p) = 1 / cut_coul p * (1 / cut_coul p)"
    and "e_shift (init_parameters force p) =
           1 / cut_coul p + 1 / cut_coul p * (1 / cut_coul p) * cut_coul p"
  using assms
  by (simp_all add: init_parameters_def Let_def case_prod_beta call_unshifted_frame
      call_unshifted_def unshifted_none_def)

lemma init_one_scalars:
  "unshifted (fst (init_one atom allreduce p i j)) = unshifted p"
  "f_shift (fst (init_one atom allreduce p i j)) = f_shift p"
  "e_shift (fst (init_one atom allreduce p i j)) = e_shift p"
  "cut_coulsq (fst (init_one atom allreduce p i j)) = cut_coulsq p"
  unfolding init_one_fst
  by (simp_all add: tail_correction_def case_prod_beta Let_def mirror_coefficients_eq
      set_coefficients_eq mix_unset_eq)


lemma scenario_state:
  "\<exists>p. scenario = Inr p
     \<and> unshifted p = Unshifted_none
     \<and> cut_ljsq p 1 1 = 6.25 \<and> lj1 p 1 1 = 48 \<and> lj2 p 1 1 = 24 \<and> lj3 p 1 1 = 4
     \<and> lj4 p 1 1 = 4 \<and> offset p 1 1 = 0
     \<and> cut_coulsq p = 6.25 \<and> f_shift p = 0.16 \<and> e_shift p = 0.8"
proof -
  define P1 where "P1 = zeroed\<lparr>alpha := 0.2, cut_lj_global := 2.5, cut_coul := 2.5,
      self_flag := 0, unshifted_flag := 0, single_enable := 1\<rparr>"
  define P2 where "P2 = fst (coeff_loop (allocate two_charges P1) 1 1 1 1 1 1 2.5)"
  define P3 where "P3 = init_parameters example_host P2"
  define P4 where "P4 = fst (init_one two_charges (\<lambda>c. c) P3 1 1)"
  have P1: "allocated P1 = False" "cut_lj_global P1 = 2.5" "cut_coul P1 = 2.5"
    "unshifted_flag P1 = 0" "offset_flag P1 = 0"
    by (simp_all add: P1_def zeroed_def)
  have s1: "settings two_charges example_host zeroed
      [''0.2'', ''2.5'', ''self'', ''no'', ''damp'', ''none''] = Inr P1"
    by (simp add: settings_def example_host_def Let_def reset_cutoffs_def zeroed_fields P1_def)
  have args: "length [''1'', ''1'', ''1.0'', ''1.0''] = 4 \<or> length [''1'', ''1'', ''1.0'', ''1.0''] = 5"
    "bounds example_host ([''1'', ''1'', ''1.0'', ''1.0''] ! 0) (ntypes two_charges) = Some (1, 1)"
    "bounds example_host ([''1'', ''1'', ''1.0'', ''1.0''] ! 1) (ntypes two_charges) = Some (1, 1)"
    "numeric example_host ([''1'', ''1'', ''1.0'', ''1.0''] ! 2) = Some 1"
    "numeric example_host ([''1'', ''1'', ''1.0'', ''1.0''] ! 3) = Some 1"
    "(if length [''1'', ''1'', ''1.0'', ''1.0''] = 5
      then numeric example_host ([''1'', ''1'', ''1.0'', ''1.0''] ! 4)
      else Some (cut_lj_global P1)) = Some 2.5"
    by (simp_all add: example_host_def P1)
  have count: "snd (coeff_loop (allocate two_charges P1) 1 1 1 1 1 1 2.5) = 1"
    by (simp add: coeff_loop_count)
  have s2: "coeff two_charges example_host P1 [''1'', ''1'', ''1.0'', ''1.0''] = Inr P2"
    using coeff_parsed [OF args] count by (simp add: P1 P2_def)
  have s3: "init_style two_charges example_host P2 = Inr P3"
    by (simp add: init_style_def two_charges_def P3_def)
  have s: "scenario = Inr P4"
    by (simp add: scenario_def s1 s2 s3 P4_def)
  have P2: "setflag P2 (Suc 0) (Suc 0) = 1" "epsilon P2 (Suc 0) (Suc 0) = 1"
    "sigma P2 (Suc 0) (Suc 0) = 1" "cut_lj P2 (Suc 0) (Suc 0) = 5 / 2"
    "cut_coul P2 = 5 / 2" "unshifted_flag P2 = 0" "offset_flag P2 = 0"
    unfolding P2_def
    by (simp_all add: coeff_loop_tables coeff_loop_scalars coeff_loop_frame
        allocate_scalars P1)
  have P3: "setflag P3 (Suc 0) (Suc 0) = 1" "epsilon P3 (Suc 0) (Suc 0) = 1"
    "sigma P3 (Suc 0) (Suc 0) = 1" "cut_lj P3 (Suc 0) (Suc 0) = 5 / 2"
    "offset_flag P3 = 0" "cut_coulsq P3 = 25 / 4" "unshifted P3 = Unshifted_none"
    "f_shift P3 = 4 / 25" "e_shift P3 = 4 / 5"
    by (simp_all add: P3_def init_parameters_tables init_parameters_none P2)
  have mixed: "epsilon (mix_unset P3 (Suc 0) (Suc 0)) (Suc 0) (Suc 0) = 1"
    "sigma (mix_unset P3 (Suc 0) (Suc 0)) (Suc 0) (Suc 0) = 1"
    "cut_lj (mix_unset P3 (Suc 0) (Suc 0)) (Suc 0) (Suc 0) = 5 / 2"
    "offset_flag (mix_unset P3 (Suc 0) (Suc 0)) = 0"
    by (simp_all add: mix_unset_entry P3)
  have tables: "cut_ljsq P4 1 1 = 6.25" "lj1 P4 1 1 = 48" "lj2 P4 1 1 = 24" "lj3 P4 1 1 = 4"
    "lj4 P4 1 1 = 4" "offset P4 1 1 = 0"
    unfolding P4_def init_one_fields by (simp_all add: mixed)
  have scalars: "unshifted P4 = Unshifted_none" "cut_coulsq P4 = 6.25" "f_shift P4 = 0.16"
    "e_shift P4 = 0.8"
    by (simp_all add: P4_def init_one_scalars P3)
  from s tables scalars show ?thesis
    by blast
qed

section \<open>Properties of the damping kernels\<close>

text \<open>
  Claim C5. For every distance \<open>r > 0\<close> and every damping strength, the kernel without
  damping returns \<open>(1/r, 1/r\<^sup>2)\<close>, the Debye kernel returns
  \<open>(exp(-\<alpha>r)/r, (1+\<alpha>r) exp(-\<alpha>r)/r\<^sup>2)\<close> and the Gaussian kernel returns
  \<open>(exp(-(\<alpha>r)\<^sup>2)/r, (1+2(\<alpha>r)\<^sup>2) exp(-(\<alpha>r)\<^sup>2)/r\<^sup>2)\<close>.
\<close>

theorem kernel_closed_forms:
  assumes "0 < r"
  shows "unshifted_none p r = (1 / r, 1 / r\<^sup>2)
       \<and> unshifted_debye p r =
           (exp (- (alpha p * r)) / r, (1 + alpha p * r) * exp (- (alpha p * r)) / r\<^sup>2)
       \<and> unshifted_gauss p r =
           (exp (- (alpha p * r)\<^sup>2) / r,
            (1 + 2 * (alpha p * r)\<^sup>2) * exp (- (alpha p * r)\<^sup>2) / r\<^sup>2)"
  using assms
  by (simp add: unshifted_none_def unshifted_debye_def unshifted_gauss_def Let_def
      power2_eq_square)

theorem kernel_closed_forms_witness:
  "(0::real) < 2
   \<and> unshifted_none (zeroed\<lparr>alpha := 3\<rparr>) 2 = (1 / 2, 1 / 2\<^sup>2)
   \<and> unshifted_debye (zeroed\<lparr>alpha := 3\<rparr>) 2 = (exp (- 6) / 2, 7 * exp (- 6) / 4)
   \<and> unshifted_gauss (zeroed\<lparr>alpha := 3\<rparr>) 2 = (exp (- 36) / 2, 73 * exp (- 36) / 4)"
  using kernel_closed_forms [of 2 "zeroed\<lparr>alpha := 3\<rparr>"]
  by (simp add: zeroed_def)

section \<open>Properties of the pair evaluation\<close>

text \<open>
  Claim C1. For a pair at squared distance \<open>rsq > 0\<close>, \<^verbatim>\<open>single\<close> returns: a
  Lennard-Jones force contribution \<open>factor_lj r6inv (lj1 r6inv - lj2)\<close> with
  \<open>r6inv = (1/rsq)\<^sup>3\<close>, present only below the squared Lennard-Jones cutoff; a Coulomb
  force contribution \<open>prefactor (f - f_shift) r\<close> with \<open>r = sqrt rsq\<close>, \<open>(v, f)\<close>
  the bound kernel at \<open>r\<close> and \<open>prefactor = factor_coul qqrd2e q\<^sub>i q\<^sub>j\<close>, present only
  below the squared Coulomb cutoff; as force over distance the sum of the two divided by
  \<open>rsq\<close>; and as energy the sum of \<open>factor_lj r6inv (lj3 r6inv - lj4) - offset\<close> and
  \<open>prefactor (v + r f_shift - e_shift)\<close> under the same two conditions. The squared
  cutoffs are the cached fields \<open>cut_ljsq\<close> and \<open>cut_coulsq\<close>.
\<close>

theorem single_formula:
  assumes "0 < rsq"
  shows "single atom force p i j itype jtype rsq factor_coul factor_lj =
     (let r6inv = (1 / rsq) ^ 3;
          r = sqrt rsq;
          v = fst (call_unshifted p r);
          f = snd (call_unshifted p r);
          prefactor = factor_coul * qqrd2e force * atom_q atom i * atom_q atom j;
          force_lj = (if rsq < cut_ljsq p itype jtype
                      then factor_lj * r6inv * (lj1 p itype jtype * r6inv - lj2 p itype jtype)
                      else 0);
          force_coul = (if rsq < cut_coulsq p then prefactor * (f - f_shift p) * r else 0);
          e_lj = (if rsq < cut_ljsq p itype jtype
                  then factor_lj * r6inv * (lj3 p itype jtype * r6inv - lj4 p itype jtype)
                       - offset p itype jtype
                  else 0);
          e_coul = (if rsq < cut_coulsq p then prefactor * (v + r * f_shift p - e_shift p) else 0)
      in (e_lj + e_coul, (force_lj + force_coul) / rsq))"
  using assms
  by (simp add: single_def Let_def power3_eq_cube)

text \<open>
  The witness is the scenario: no damping, \<open>\<epsilon> = \<sigma> = 1\<close>, both cutoffs at \<open>2.5\<close>, hence
  \<open>f_shift = 1/6.25\<close> and \<open>e_shift = 1/2.5 + 2.5/6.25\<close>. At distance one the energy of
  the two charges is \<open>-0.36\<close> and the force over distance is \<open>23.16\<close>.
\<close>

theorem single_formula_witness:
  "\<exists>p. scenario = Inr p
     \<and> single two_charges example_host p 0 1 1 1 1 1 1 = (- 0.36, 23.16)"
proof -
  from scenario_state obtain p where p: "scenario = Inr p"
    "unshifted p = Unshifted_none"
    "cut_ljsq p 1 1 = 6.25" "lj1 p 1 1 = 48" "lj2 p 1 1 = 24" "lj3 p 1 1 = 4"
    "lj4 p 1 1 = 4" "offset p 1 1 = 0"
    "cut_coulsq p = 6.25" "f_shift p = 0.16" "e_shift p = 0.8"
    by blast
  have q: "cut_ljsq p (Suc 0) (Suc 0) = 25 / 4" "lj1 p (Suc 0) (Suc 0) = 48"
    "lj2 p (Suc 0) (Suc 0) = 24" "lj3 p (Suc 0) (Suc 0) = 4" "lj4 p (Suc 0) (Suc 0) = 4"
    "offset p (Suc 0) (Suc 0) = 0" "cut_coulsq p = 25 / 4" "f_shift p = 4 / 25"
    "e_shift p = 4 / 5"
    using p(3-) by simp_all
  have "(0::real) < 1"
    by simp
  from single_formula [OF this, of two_charges example_host p 0 1 1 1 1 1]
  have "single two_charges example_host p 0 1 1 1 1 1 1 = (- 0.36, 23.16)"
    by (simp add: q p(2) call_unshifted_def unshifted_none_def Let_def
        two_charges_def example_host_def)
  with p(1) show ?thesis
    by blast
qed

section \<open>Properties of the calibration\<close>

text \<open>
  Claim C2. Let the Coulomb cutoff \<open>rc\<close> be positive. The calibration pass keeps the
  cutoff and the damping strength, caches \<open>rc\<^sup>2\<close>, whose square root is \<open>rc\<close> again, and
  binds the kernel selected by the flag. With \<open>(v, f)\<close> the value of that kernel at
  \<open>rc\<close> and with the \<open>f_shift\<close> and \<open>e_shift\<close> the pass has stored, \<open>f - f_shift\<close> and
  \<open>v + rc f_shift - e_shift\<close> are zero, so that for every prefactor the shifted Coulomb
  force term \<open>prefactor (f - f_shift) rc\<close> and the shifted Coulomb energy term
  \<open>prefactor (v + rc f_shift - e_shift)\<close> are zero at \<open>r = rc\<close>.
\<close>

theorem shifted_terms_vanish_at_cutoff:
  assumes "0 < cut_coul p"
  shows "(let p' = init_parameters force p;
              rc = cut_coul p;
              v = fst (call_unshifted p' rc);
              f = snd (call_unshifted p' rc)
          in cut_coul p' = rc \<and> alpha p' = alpha p
           \<and> cut_coulsq p' = rc * rc \<and> sqrt (cut_coulsq p') = rc
           \<and> unshifted p' =
                (if unshifted_flag p = 0 then Unshifted_none
                 else if unshifted_flag p = 1 then Unshifted_debye
                 else if unshifted_flag p = 2 then Unshifted_gauss
                 else if unshifted_flag p = 3 then Unshifted_erfc
                 else unshifted p)
           \<and> f - f_shift p' = 0
           \<and> v + rc * f_shift p' - e_shift p' = 0
           \<and> prefactor * (f - f_shift p') * rc = 0
           \<and> prefactor * (v + rc * f_shift p' - e_shift p') = 0)"
  using assms
  by (simp add: init_parameters_def Let_def case_prod_beta call_unshifted_frame)

text \<open>
  The witness calibrates the kernel without damping at the cutoff \<open>2.5\<close>: the stored
  shifts are \<open>f_shift = 1/6.25\<close> and \<open>e_shift = 1/2.5 + 2.5/6.25\<close>.
\<close>

theorem shifted_terms_vanish_at_cutoff_witness:
  "0 < cut_coul (zeroed\<lparr>cut_coul := 2.5, unshifted_flag := 0\<rparr>)
   \<and> cut_coul (init_parameters example_host (zeroed\<lparr>cut_coul := 2.5, unshifted_flag := 0\<rparr>))
       = 2.5
   \<and> unshifted (init_parameters example_host (zeroed\<lparr>cut_coul := 2.5, unshifted_flag := 0\<rparr>))
       = Unshifted_none
   \<and> f_shift (init_parameters example_host (zeroed\<lparr>cut_coul := 2.5, unshifted_flag := 0\<rparr>))
       = 0.16
   \<and> e_shift (init_parameters example_host (zeroed\<lparr>cut_coul := 2.5, unshifted_flag := 0\<rparr>))
       = 0.8"
proof -
  define P where "P = zeroed\<lparr>cut_coul := 2.5, unshifted_flag := 0\<rparr>"
  define P' where "P' = init_parameters example_host P"
  have pos: "0 < cut_coul P"
    by (simp add: P_def)
  have P: "cut_coul P = 5 / 2" "unshifted_flag P = 0"
    by (simp_all add: P_def)
  note t = shifted_terms_vanish_at_cutoff [OF pos, of example_host 1, unfolded Let_def,
      folded P'_def]
  from t have k: "unshifted P' = Unshifted_none" and c: "cut_coul P' = 5 / 2"
    by (simp_all add: P)
  have vf: "call_unshifted P' (cut_coul P) = (2 / 5, 4 / 25)"
    by (simp add: call_unshifted_def k unshifted_none_def P)
  from t have "snd (call_unshifted P' (cut_coul P)) - f_shift P' = 0"
    and "fst (call_unshifted P' (cut_coul P)) + cut_coul P * f_shift P' - e_shift P' = 0"
    by blast+
  then have "f_shift P' = 4 / 25" "e_shift P' = 4 / 5"
    unfolding vf by (simp_all add: P)
  with pos k c show ?thesis
    unfolding P'_def P_def by simp
qed

text \<open>
  Claim C3, as the code has it. The calibration pass binds the kernel selected by the
  flag and stores \<open>f_shift = f(rc)\<close>, \<open>e_shift = v(rc) + f_shift rc\<close> for the Coulomb
  cutoff \<open>rc\<close>, and \<open>e_self\<close> equal to \<open>-0.5 (e_shift + \<alpha>)\<close> for Debye,
  \<open>-0.5 (e_shift + two_pis \<alpha>)\<close> for erfc and \<open>-0.5 e_shift\<close> otherwise, each divided by
  \<open>qqrd2e\<close>. The factor for erfc is the decimal constant \<open>two_pis = 1.12837916709551\<close>
  of the file, which is not \<open>2/\<surd>\<pi>\<close> but lies below it by less than \<open>10\<^sup>-\<^sup>1\<^sup>4\<close>.
\<close>

theorem init_parameters_calibration:
  "(let p' = init_parameters force p;
        v = fst (call_unshifted p' (cut_coul p'));
        f = snd (call_unshifted p' (cut_coul p'))
    in unshifted p' =
         (if unshifted_flag p = 0 then Unshifted_none
          else if unshifted_flag p = 1 then Unshifted_debye
          else if unshifted_flag p = 2 then Unshifted_gauss
          else if unshifted_flag p = 3 then Unshifted_erfc
          else unshifted p)
     \<and> alpha p' = alpha p \<and> cut_coul p' = cut_coul p
     \<and> f_shift p' = f
     \<and> e_shift p' = v + f_shift p' * cut_coul p'
     \<and> e_self p' =
         (if unshifted_flag p = 1 then - 0.5 * (e_shift p' + alpha p') / qqrd2e force
          else if unshifted_flag p = 3 then
            - 0.5 * (e_shift p' + two_pis * alpha p') / qqrd2e force
          else - 0.5 * e_shift p' / qqrd2e force)
     \<and> two_pis < 2 / sqrt pi \<and> 2 / sqrt pi < two_pis + 1 / 10 ^ 14)"
  using two_pis_below two_pis_close
  by (simp add: init_parameters_def Let_def case_prod_beta call_unshifted_frame)

text \<open>
  Claim C3 as stated, with \<open>2/\<surd>\<pi>\<close> itself, fails: with the erfc kernel, \<open>\<alpha> = 1\<close>,
  cutoff \<open>1\<close> and \<open>qqrd2e = 1\<close> the stored self energy is not
  \<open>-0.5 (e_shift + 2/\<surd>\<pi>)\<close>.
\<close>

theorem erfc_self_energy_counterexample:
  "e_self (init_parameters \<lparr>qqrd2e = 1, numeric = (\<lambda>s. None), bounds = (\<lambda>s n. None)\<rparr>
             (zeroed\<lparr>alpha := 1, cut_coul := 1, unshifted_flag := 3\<rparr>))
   \<noteq> - 0.5 * (e_shift (init_parameters \<lparr>qqrd2e = 1, numeric = (\<lambda>s. None), bounds = (\<lambda>s n. None)\<rparr>
                       (zeroed\<lparr>alpha := 1, cut_coul := 1, unshifted_flag := 3\<rparr>))
              + 2 / sqrt pi * 1) / 1"
proof -
  let ?f = "\<lparr>qqrd2e = 1, numeric = (\<lambda>s. None), bounds = (\<lambda>s n. None)\<rparr>"
  let ?p = "zeroed\<lparr>alpha := 1, cut_coul := 1, unshifted_flag := 3\<rparr>"
  have "e_self (init_parameters ?f ?p) = - 0.5 * (e_shift (init_parameters ?f ?p) + two_pis)"
    using init_parameters_e_self_erfc [of ?p ?f] by simp
  moreover have "two_pis \<noteq> 2 / sqrt pi"
    using two_pis_below by simp
  ultimately show ?thesis
    by simp
qed

section \<open>Properties of the self-energy loop\<close>

text \<open>
  Claim C4, as the code has it. When energies are requested and the self term is
  enabled, the loop makes one call of the ledger per local particle \<open>i\<close>, with \<open>i\<close>
  as both partners, no van der Waals energy, no force, and the Coulomb energy
  \<open>e_self (qqrd2e q\<^sub>i)\<^sup>2 = qqrd2e\<^sup>2 q\<^sub>i\<^sup>2 e_self\<close>: the conversion constant enters squared.
  Otherwise it makes no call.
\<close>

theorem self_energy_tally:
  "compute_self_energy atom force p eflag =
     (if eflag \<noteq> 0 \<and> self_flag p \<noteq> 0 then
        map (\<lambda>i. \<lparr>tally_i = i, tally_j = i, tally_nlocal = nlocal atom,
                   tally_newton_pair = 0, tally_evdwl = 0,
                   tally_ecoul = (qqrd2e force)\<^sup>2 * (atom_q atom i)\<^sup>2 * e_self p,
                   tally_fpair = 0, tally_delx = 0, tally_dely = 0, tally_delz = 0\<rparr>)
          [0 ..< nlocal atom]
      else [])"
  by (simp add: compute_self_energy_def Let_def power2_eq_square algebra_simps)

text \<open>
  Claim C4 as stated, with the conversion constant entering once, fails: with
  \<open>qqrd2e = 2\<close>, one particle of charge \<open>1\<close> and \<open>e_self = 1\<close> the tallied energy is
  \<open>4\<close>, not \<open>qqrd2e q\<^sup>2 e_self = 2\<close>.
\<close>

theorem self_energy_tally_counterexample:
  "map tally_ecoul
     (compute_self_energy
        \<lparr>q_flag = 1, atom_q = (\<lambda>i. 1), atom_type = (\<lambda>i. 1), nlocal = 1, ntypes = 1\<rparr>
        \<lparr>qqrd2e = 2, numeric = (\<lambda>s. None), bounds = (\<lambda>s n. None)\<rparr>
        (zeroed\<lparr>e_self := 1\<rparr>) 1)
   \<noteq> [2 * 1\<^sup>2 * 1]"
  by (simp add: compute_self_energy_def zeroed_def)

section \<open>The force value as derivative of the potential value\<close>

text \<open>
  The potential value of the erfc kernel is \<open>Q(t(r)) exp(-(\<alpha>r)\<^sup>2)/r\<close> with the
  polynomial \<open>Q(y) = y (A1 + y (A2 + y (A3 + y (A4 + y A5))))\<close>.
\<close>

lemma erfc_polynomial_deriv:
  "((\<lambda>y. y * (A1 + y * (A2 + y * (A3 + y * (A4 + y * A5))))) has_real_derivative
      A1 + y * (2 * A2 + y * (3 * A3 + y * (4 * A4 + y * (5 * A5))))) (at y)"
  by (auto intro!: derivative_eq_intros simp: algebra_simps)

lemma erfc_potential_deriv:
  fixes a r :: real
  assumes r: "r \<noteq> 0" and d: "1 + EWALD_P * (a * r) \<noteq> 0"
  defines "t \<equiv> 1 / (1 + EWALD_P * (a * r))"
  defines "E \<equiv> exp (- (a * r) * (a * r)) / r"
  shows "((\<lambda>x. fst (unshifted_erfc (p\<lparr>alpha := a\<rparr>) x)) has_real_derivative
           (A1 + t * (2 * A2 + t * (3 * A3 + t * (4 * A4 + t * (5 * A5))))) *
             (- (EWALD_P * a * t\<^sup>2)) * E
           + t * (A1 + t * (A2 + t * (A3 + t * (A4 + t * A5)))) *
             (- (2 * a\<^sup>2 * r * E + E / r))) (at r)"
proof -
  have dt: "((\<lambda>x. 1 / (1 + EWALD_P * (a * x))) has_real_derivative - (EWALD_P * a * t\<^sup>2)) (at r)"
    using d unfolding t_def
    by (auto intro!: derivative_eq_intros simp: field_simps power2_eq_square)
  have dE: "((\<lambda>x. exp (- (a * x) * (a * x)) / x) has_real_derivative
              - (2 * a\<^sup>2 * r * E + E / r)) (at r)"
    using r unfolding E_def
    by (auto intro!: derivative_eq_intros simp: field_simps power2_eq_square)
  have dP: "((\<lambda>x. (1 / (1 + EWALD_P * (a * x))) *
                (A1 + (1 / (1 + EWALD_P * (a * x))) * (A2 + (1 / (1 + EWALD_P * (a * x))) *
                  (A3 + (1 / (1 + EWALD_P * (a * x))) * (A4 + (1 / (1 + EWALD_P * (a * x))) * A5)))))
             has_real_derivative
               (A1 + t * (2 * A2 + t * (3 * A3 + t * (4 * A4 + t * (5 * A5))))) *
               (- (EWALD_P * a * t\<^sup>2))) (at r)"
    using DERIV_chain2[OF erfc_polynomial_deriv dt] unfolding t_def .
  have "((\<lambda>x. (1 / (1 + EWALD_P * (a * x))) *
                (A1 + (1 / (1 + EWALD_P * (a * x))) * (A2 + (1 / (1 + EWALD_P * (a * x))) *
                  (A3 + (1 / (1 + EWALD_P * (a * x))) * (A4 + (1 / (1 + EWALD_P * (a * x))) * A5))))
             * (exp (- (a * x) * (a * x)) / x))
          has_real_derivative
            (A1 + t * (2 * A2 + t * (3 * A3 + t * (4 * A4 + t * (5 * A5))))) *
               (- (EWALD_P * a * t\<^sup>2)) * E
            + t * (A1 + t * (A2 + t * (A3 + t * (A4 + t * A5)))) *
               (- (2 * a\<^sup>2 * r * E + E / r))) (at r)"
    using DERIV_mult[OF dP dE] unfolding t_def E_def by (simp add: mult.commute)
  then show ?thesis
    unfolding unshifted_erfc_def Let_def fst_conv
    by (simp add: mult.assoc)
qed


lemma erfc_defect_at_one:
  "(A1 + t * (2 * A2 + t * (3 * A3 + t * (4 * A4 + t * (5 * A5))))) * (EWALD_P * t\<^sup>2)
     + 2 * (t * (A1 + t * (A2 + t * (A3 + t * (A4 + t * A5))))) \<noteq> two_pis"
  if "t = 1 / (1 + EWALD_P)" for t :: real
  unfolding that by (simp add: A1_def A2_def A3_def A4_def A5_def EWALD_P_def two_pis_def
      power2_eq_square)

text \<open>
  Claim C6 as stated fails for the erfc kernel: at \<open>\<alpha> = 1\<close> and \<open>r = 1\<close> its force
  value is not the negative derivative of its potential value.
\<close>

theorem erfc_force_counterexample:
  "\<not> ((\<lambda>x. fst (unshifted_erfc (zeroed\<lparr>alpha := 1\<rparr>) x)) has_real_derivative
        - snd (unshifted_erfc (zeroed\<lparr>alpha := 1\<rparr>) 1)) (at 1)"
proof
  define t :: real where "t = 1 / (1 + EWALD_P)"
  define E :: real where "E = exp (- 1)"
  define Q where "Q = t * (A1 + t * (A2 + t * (A3 + t * (A4 + t * A5))))"
  define Q' where "Q' = A1 + t * (2 * A2 + t * (3 * A3 + t * (4 * A4 + t * (5 * A5))))"
  assume "((\<lambda>x. fst (unshifted_erfc (zeroed\<lparr>alpha := 1\<rparr>) x)) has_real_derivative
        - snd (unshifted_erfc (zeroed\<lparr>alpha := 1\<rparr>) 1)) (at 1)"
  moreover have "1 + EWALD_P * (1 * 1) \<noteq> 0"
    by (simp add: EWALD_P_def)
  then have "((\<lambda>x. fst (unshifted_erfc (zeroed\<lparr>alpha := 1\<rparr>) x)) has_real_derivative
           Q' * (- (EWALD_P * t\<^sup>2)) * E + Q * (- (2 * E + E))) (at 1)"
    using erfc_potential_deriv [of 1 1 zeroed] by (simp add: t_def E_def Q_def Q'_def)
  ultimately have "- snd (unshifted_erfc (zeroed\<lparr>alpha := 1\<rparr>) 1)
      = Q' * (- (EWALD_P * t\<^sup>2)) * E + Q * (- (2 * E + E))"
    by (rule DERIV_unique)
  moreover have "snd (unshifted_erfc (zeroed\<lparr>alpha := 1\<rparr>) 1) = Q * E + two_pis * E"
    by (simp add: unshifted_erfc_def Let_def t_def E_def Q_def)
  ultimately have "E * (Q' * (EWALD_P * t\<^sup>2) + 2 * Q - two_pis) = 0"
    by (simp add: algebra_simps)
  moreover have "E \<noteq> 0"
    by (simp add: E_def)
  ultimately have "Q' * (EWALD_P * t\<^sup>2) + 2 * Q = two_pis"
    by simp
  then show False
    using erfc_defect_at_one [OF t_def] by (simp add: Q_def Q'_def)
qed


lemma none_deriv:
  assumes "0 < r"
  shows "((\<lambda>x. fst (unshifted_none p x)) has_real_derivative - snd (unshifted_none p r)) (at r)"
  using assms unfolding unshifted_none_def Let_def fst_conv snd_conv
  by (auto intro!: derivative_eq_intros simp: field_simps power2_eq_square)

lemma debye_deriv:
  assumes "0 < r"
  shows "((\<lambda>x. fst (unshifted_debye p x)) has_real_derivative - snd (unshifted_debye p r)) (at r)"
  using assms unfolding unshifted_debye_def Let_def fst_conv snd_conv
  by (auto intro!: derivative_eq_intros simp: field_simps power2_eq_square)

lemma gauss_deriv:
  assumes "0 < r"
  shows "((\<lambda>x. fst (unshifted_gauss p x)) has_real_derivative - snd (unshifted_gauss p r)) (at r)"
  using assms unfolding unshifted_gauss_def Let_def fst_conv snd_conv
  by (auto intro!: derivative_eq_intros simp: field_simps power2_eq_square)

lemma erfc_force_form:
  "snd (unshifted_erfc p r) =
     fst (unshifted_erfc p r) / r + two_pis * alpha p * (exp (- (alpha p * r)\<^sup>2) / r)"
  by (simp add: unshifted_erfc_def Let_def power2_eq_square)

lemma erfc_deriv:
  assumes "0 < r" "0 < alpha p"
  shows "(let t = 1 / (1 + EWALD_P * (alpha p * r));
              E = exp (- (alpha p * r)\<^sup>2) / r
          in ((\<lambda>x. fst (unshifted_erfc p x)) has_real_derivative
                - (fst (unshifted_erfc p r) / r
                   + (EWALD_P * alpha p * t\<^sup>2 *
                        (A1 + t * (2 * A2 + t * (3 * A3 + t * (4 * A4 + t * (5 * A5)))))
                      + 2 * (alpha p)\<^sup>2 * r *
                        (t * (A1 + t * (A2 + t * (A3 + t * (A4 + t * A5)))))) * E)) (at r))"
proof -
  define a where "a = alpha p"
  define t where "t = 1 / (1 + EWALD_P * (a * r))"
  define E where "E = exp (- (a * r) * (a * r)) / r"
  define Q where "Q = t * (A1 + t * (A2 + t * (A3 + t * (A4 + t * A5))))"
  define Q' where "Q' = A1 + t * (2 * A2 + t * (3 * A3 + t * (4 * A4 + t * (5 * A5))))"
  have "0 < EWALD_P * (a * r)"
    using assms by (simp add: EWALD_P_def a_def)
  then have d: "1 + EWALD_P * (a * r) \<noteq> 0"
    by linarith
  have r: "r \<noteq> 0" using assms by simp
  have same: "p\<lparr>alpha := a\<rparr> = p"
    by (simp add: a_def)
  have v: "fst (unshifted_erfc p r) = Q * E"
    by (simp add: unshifted_erfc_def Let_def Q_def E_def t_def a_def)
  have E2: "exp (- (a * r)\<^sup>2) / r = E"
    by (simp add: E_def power2_eq_square)
  have "((\<lambda>x. fst (unshifted_erfc p x)) has_real_derivative
          Q' * (- (EWALD_P * a * t\<^sup>2)) * E + Q * (- (2 * a\<^sup>2 * r * E + E / r))) (at r)"
    using erfc_potential_deriv [OF r d, of p] unfolding same t_def E_def Q_def Q'_def .
  moreover have "Q' * (- (EWALD_P * a * t\<^sup>2)) * E + Q * (- (2 * a\<^sup>2 * r * E + E / r))
      = - (Q * E / r + (EWALD_P * a * t\<^sup>2 * Q' + 2 * a\<^sup>2 * r * Q) * E)"
    by (simp add: algebra_simps)
  ultimately have "((\<lambda>x. fst (unshifted_erfc p x)) has_real_derivative
       - (Q * E / r + (EWALD_P * a * t\<^sup>2 * Q' + 2 * a\<^sup>2 * r * Q) * E)) (at r)"
    by (simp only:)
  then show ?thesis
    unfolding Let_def v a_def[symmetric] E2 t_def[symmetric] Q_def Q'_def .
qed

text \<open>
  Claim C6, as the code has it. For \<open>r > 0\<close> and \<open>\<alpha> > 0\<close> the force value is the
  negative derivative of the potential value for the kernels without damping, with
  Debye damping and with Gaussian damping. The erfc kernel returns
  \<open>f = v/r + two_pis \<alpha> exp(-(\<alpha>r)\<^sup>2)/r\<close>, whereas the negative derivative of its
  potential value, a polynomial \<open>Q\<close> in \<open>t = 1/(1 + EWALD_P \<alpha> r)\<close> times
  \<open>exp(-(\<alpha>r)\<^sup>2)/r\<close>, is \<open>v/r + (EWALD_P \<alpha> t\<^sup>2 Q'(t) + 2 \<alpha>\<^sup>2 r Q(t)) exp(-(\<alpha>r)\<^sup>2)/r\<close>.
\<close>

theorem kernel_force_derivative:
  assumes "0 < r" "0 < alpha p"
  shows "((\<lambda>x. fst (unshifted_none p x)) has_real_derivative - snd (unshifted_none p r)) (at r)
       \<and> ((\<lambda>x. fst (unshifted_debye p x)) has_real_derivative - snd (unshifted_debye p r)) (at r)
       \<and> ((\<lambda>x. fst (unshifted_gauss p x)) has_real_derivative - snd (unshifted_gauss p r)) (at r)
       \<and> snd (unshifted_erfc p r) =
           fst (unshifted_erfc p r) / r + two_pis * alpha p * (exp (- (alpha p * r)\<^sup>2) / r)
       \<and> (let t = 1 / (1 + EWALD_P * (alpha p * r));
               E = exp (- (alpha p * r)\<^sup>2) / r
           in ((\<lambda>x. fst (unshifted_erfc p x)) has_real_derivative
                - (fst (unshifted_erfc p r) / r
                   + (EWALD_P * alpha p * t\<^sup>2 *
                        (A1 + t * (2 * A2 + t * (3 * A3 + t * (4 * A4 + t * (5 * A5)))))
                      + 2 * (alpha p)\<^sup>2 * r *
                        (t * (A1 + t * (A2 + t * (A3 + t * (A4 + t * A5)))))) * E)) (at r))"
  using none_deriv [OF assms(1)] debye_deriv [OF assms(1)] gauss_deriv [OF assms(1)]
    erfc_force_form erfc_deriv [OF assms]
  by blast

theorem kernel_force_derivative_witness:
  "((\<lambda>x. fst (unshifted_debye (zeroed\<lparr>alpha := 1\<rparr>) x)) has_real_derivative
      - (2 * exp (- 1))) (at 1)
   \<and> ((\<lambda>x. fst (unshifted_gauss (zeroed\<lparr>alpha := 1\<rparr>) x)) has_real_derivative
      - (3 * exp (- 1))) (at 1)"
proof -
  have "(0::real) < 1" "0 < alpha (zeroed\<lparr>alpha := 1\<rparr>)"
    by simp_all
  from kernel_force_derivative [OF this] show ?thesis
    by (simp add: unshifted_debye_def unshifted_gauss_def Let_def)
qed

section \<open>Properties of finalising a type pair\<close>

text \<open>
  Claim C7. \<^verbatim>\<open>init_one\<close> on a pair \<open>(i, j)\<close> that was not set derives \<open>\<epsilon>(i,j)\<close> as the
  geometric mean of \<open>\<epsilon>(i,i)\<close> and \<open>\<epsilon>(j,j)\<close>, times the weight in \<open>\<sigma>(i,i)\<close> and
  \<open>\<sigma>(j,j)\<close> when the mixing policy has one, and \<open>\<sigma>(i,j)\<close> and \<open>cut_lj(i,j)\<close> as arithmetic
  means; a pair that was set keeps its three values. In all cases
  \<open>lj1 = 48 \<epsilon> \<sigma>\<^sup>1\<^sup>2\<close>, \<open>lj2 = 24 \<epsilon> \<sigma>\<^sup>6\<close>, \<open>lj3 = 4 \<epsilon> \<sigma>\<^sup>1\<^sup>2\<close>, \<open>lj4 = 4 \<epsilon> \<sigma>\<^sup>6\<close>, the offset is
  \<open>4 \<epsilon> ((\<sigma>/cut_lj)\<^sup>1\<^sup>2 - (\<sigma>/cut_lj)\<^sup>6)\<close> when \<open>offset_flag\<close> is set and \<open>0\<close> otherwise, and the
  value returned is the larger of \<open>cut_lj(i,j)\<close> and the Coulomb cutoff. The mixing
  functions are those modelled from the spec.
\<close>

theorem init_one_result:
  "(let p' = fst (init_one atom allreduce p i j);
        cut = snd (init_one atom allreduce p i j)
    in epsilon p' i j =
         (if setflag p i j = 0
          then (case mix_weight p of
                  None \<Rightarrow> sqrt (epsilon p i i * epsilon p j j)
                | Some w \<Rightarrow> w (sigma p i i) (sigma p j j) * sqrt (epsilon p i i * epsilon p j j))
          else epsilon p i j)
     \<and> sigma p' i j =
         (if setflag p i j = 0 then (sigma p i i + sigma p j j) / 2 else sigma p i j)
     \<and> cut_lj p' i j =
         (if setflag p i j = 0 then (cut_lj p i i + cut_lj p j j) / 2 else cut_lj p i j)
     \<and> lj1 p' i j = 48 * epsilon p' i j * sigma p' i j ^ 12
     \<and> lj2 p' i j = 24 * epsilon p' i j * sigma p' i j ^ 6
     \<and> lj3 p' i j = 4 * epsilon p' i j * sigma p' i j ^ 12
     \<and> lj4 p' i j = 4 * epsilon p' i j * sigma p' i j ^ 6
     \<and> offset p' i j =
         (if offset_flag p \<noteq> 0
          then 4 * epsilon p' i j *
                 ((sigma p' i j / cut_lj p' i j) ^ 12 - (sigma p' i j / cut_lj p' i j) ^ 6)
          else 0)
     \<and> cut = max (cut_lj p' i j) (cut_coul p))"
proof -
  define p1 where "p1 = mix_unset p i j"
  define p' where "p' = fst (init_one atom allreduce p i j)"
  have tabs: "epsilon p' = epsilon p1" "sigma p' = sigma p1" "cut_lj p' = cut_lj p1"
    by (simp_all only: p'_def p1_def init_one_fields)
  have coeffs:
    "lj1 p' i j = 48 * epsilon p1 i j * sigma p1 i j ^ 12"
    "lj2 p' i j = 24 * epsilon p1 i j * sigma p1 i j ^ 6"
    "lj3 p' i j = 4 * epsilon p1 i j * sigma p1 i j ^ 12"
    "lj4 p' i j = 4 * epsilon p1 i j * sigma p1 i j ^ 6"
    "offset p' i j =
       (if offset_flag p \<noteq> 0
        then 4 * epsilon p1 i j *
               ((sigma p1 i j / cut_lj p1 i j) ^ 12 - (sigma p1 i j / cut_lj p1 i j) ^ 6)
        else 0)"
    by (simp_all only: p'_def p1_def init_one_fields mix_unset_entry(4))
  have mixed:
    "epsilon p1 i j =
         (if setflag p i j = 0
          then (case mix_weight p of
                  None \<Rightarrow> sqrt (epsilon p i i * epsilon p j j)
                | Some w \<Rightarrow> w (sigma p i i) (sigma p j j) * sqrt (epsilon p i i * epsilon p j j))
          else epsilon p i j)"
    "sigma p1 i j =
         (if setflag p i j = 0 then (sigma p i i + sigma p j j) / 2 else sigma p i j)"
    "cut_lj p1 i j =
         (if setflag p i j = 0 then (cut_lj p i i + cut_lj p j j) / 2 else cut_lj p i j)"
    by (simp_all add: p1_def mix_unset_entry mix_energy_def mix_distance_def split: option.split)
  have cut: "snd (init_one atom allreduce p i j) = max (cut_lj p1 i j) (cut_coul p)"
    by (simp only: init_one_snd p1_def)
  show ?thesis
    unfolding Let_def p'_def[symmetric] cut tabs coeffs
    by (simp only: mixed simp_thms)
qed

text \<open>
  Claim C8, as the code has it. After \<^verbatim>\<open>init_one\<close> on \<open>(i, j)\<close> the derived tables
  \<open>cut_ljsq\<close>, \<open>lj1\<close> .. \<open>lj4\<close> and \<open>offset\<close> hold at \<open>(j, i)\<close> what they hold at
  \<open>(i, j)\<close>. The tables \<open>epsilon\<close>, \<open>sigma\<close> and \<open>cut_lj\<close> are written at \<open>(i, j)\<close>
  only: for \<open>i \<noteq> j\<close> their entry at \<open>(j, i)\<close> is what it was before the call.
\<close>

theorem init_one_mirror:
  "(let p' = fst (init_one atom allreduce p i j)
    in cut_ljsq p' j i = cut_ljsq p' i j
     \<and> lj1 p' j i = lj1 p' i j
     \<and> lj2 p' j i = lj2 p' i j
     \<and> lj3 p' j i = lj3 p' i j
     \<and> lj4 p' j i = lj4 p' i j
     \<and> offset p' j i = offset p' i j
     \<and> epsilon p' j i = (if i = j then epsilon p' i j else epsilon p j i)
     \<and> sigma p' j i = (if i = j then sigma p' i j else sigma p j i)
     \<and> cut_lj p' j i = (if i = j then cut_lj p' i j else cut_lj p j i))"
proof -
  have "i = j \<or> epsilon (mix_unset p i j) j i = epsilon p j i"
    using mix_unset_other(1) [where a = j and b = i and i = i and j = j and p = p] by blast
  moreover have "i = j \<or> sigma (mix_unset p i j) j i = sigma p j i"
    using mix_unset_other(2) [where a = j and b = i and i = i and j = j and p = p] by blast
  moreover have "i = j \<or> cut_lj (mix_unset p i j) j i = cut_lj p j i"
    using mix_unset_other(3) [where a = j and b = i and i = i and j = j and p = p] by blast
  ultimately show ?thesis
    unfolding Let_def init_one_fields by auto
qed

text \<open>
  Claim C8 as stated, with every derived value mirrored, fails: with two types, both
  diagonal pairs set with \<open>\<epsilon> = \<sigma> = 1\<close> and the pair \<open>(1, 2)\<close> not set, \<^verbatim>\<open>init_one\<close> on \<open>(1, 2)\<close> mixes \<open>\<epsilon>(1,2) = 1\<close> and leaves \<open>\<epsilon>(2,1)\<close> as it
  was, here \<open>0\<close>.
\<close>

theorem init_one_not_mirrored_counterexample:
  "epsilon (fst (init_one two_types (\<lambda>c. c)
      (fst (coeff_loop (fst (coeff_loop (allocate two_types zeroed) 1 1 1 1 1 1 2.5))
              2 2 2 2 1 1 2.5)) 1 2)) 1 2
   \<noteq> epsilon (fst (init_one two_types (\<lambda>c. c)
      (fst (coeff_loop (fst (coeff_loop (allocate two_types zeroed) 1 1 1 1 1 1 2.5))
              2 2 2 2 1 1 2.5)) 1 2)) 2 1"
proof -
  let ?p = "fst (coeff_loop (fst (coeff_loop (allocate two_types zeroed) 1 1 1 1 1 1 2.5))
              2 2 2 2 1 1 2.5)"
  have flag: "setflag ?p 1 2 = 0"
    by (simp add: coeff_loop_tables allocate_setflag two_types_def)
  have diag: "epsilon ?p 1 1 = 1" "epsilon ?p 2 2 = 1"
    by (simp_all add: coeff_loop_tables)
  have low: "epsilon ?p 2 1 = 0"
    by (simp add: coeff_loop_tables allocate_frame zeroed_fields)
  have policy: "mix_weight ?p = None"
    by (simp add: coeff_loop_frame allocate_frame zeroed_fields)
  have "epsilon (fst (init_one two_types (\<lambda>c. c) ?p 1 2)) 1 2 = 1"
    unfolding init_one_fields mix_unset_entry flag diag policy
    by (simp add: mix_energy_def)
  moreover have "epsilon (fst (init_one two_types (\<lambda>c. c) ?p 1 2)) 2 1 = 0"
    unfolding init_one_fields
    using mix_unset_other(1) [where a = 2 and b = 1 and i = 1 and j = 2 and p = ?p] low
    by simp
  ultimately show ?thesis
    by simp
qed

section \<open>Properties of the configuration calls\<close>

text \<open>
  Claim C9, as the code has it. With its arguments parsed, \<^verbatim>\<open>coeff\<close> visits the pairs
  \<open>(i, j)\<close> of the two ranges that have \<open>i \<le> j\<close>, sets their flag and stores \<open>\<epsilon>\<close>, \<open>\<sigma>\<close>
  and the given cutoff or else the global one; every other entry is left as it was (the
  flags as \<^verbatim>\<open>allocate\<close> left them when the tables were not yet allocated). The counter is
  the number of pairs visited, and the call fails when it is zero.
\<close>

theorem coeff_sets_upper_triangle:
  assumes "length arg = 4 \<or> length arg = 5"
    and "bounds force (arg ! 0) (ntypes atom) = Some (ilo, ihi)"
    and "bounds force (arg ! 1) (ntypes atom) = Some (jlo, jhi)"
    and "numeric force (arg ! 2) = Some epsilon_one"
    and "numeric force (arg ! 3) = Some sigma_one"
    and "(if length arg = 5 then numeric force (arg ! 4) else Some (cut_lj_global p))
           = Some cut_lj_one"
  shows "(let p0 = (if allocated p then p else allocate atom p);
              count = (\<Sum>i\<leftarrow>[ilo ..< ihi + 1]. int (jhi + 1 - max jlo i));
              hit = (\<lambda>i j. ilo \<le> i \<and> i \<le> ihi \<and> jlo \<le> j \<and> i \<le> j \<and> j \<le> jhi)
          in snd (coeff_loop p0 ilo ihi jlo jhi epsilon_one sigma_one cut_lj_one) = count
           \<and> (if count = 0
              then coeff atom force p arg = Inl Incorrect_args_for_pair_coefficients
              else \<exists>p'. coeff atom force p arg = Inr p'
                     \<and> (\<forall>i j. setflag p' i j = (if hit i j then 1 else setflag p0 i j)
                             \<and> epsilon p' i j = (if hit i j then epsilon_one else epsilon p i j)
                             \<and> sigma p' i j = (if hit i j then sigma_one else sigma p i j)
                             \<and> cut_lj p' i j = (if hit i j then cut_lj_one else cut_lj p i j))))"
proof -
  let ?p0 = "if allocated p then p else allocate atom p"
  let ?r = "coeff_loop ?p0 ilo ihi jlo jhi epsilon_one sigma_one cut_lj_one"
  have c: "(\<Sum>i\<leftarrow>[ilo ..< ihi + 1]. int (jhi + 1 - max jlo i)) = snd ?r"
    by (simp only: coeff_loop_count)
  have co: "coeff atom force p arg =
      (if snd ?r = 0 then Inl Incorrect_args_for_pair_coefficients else Inr (fst ?r))"
    by (rule coeff_parsed [OF assms])
  have tabs: "\<forall>i j.
      setflag (fst ?r) i j =
        (if ilo \<le> i \<and> i \<le> ihi \<and> jlo \<le> j \<and> i \<le> j \<and> j \<le> jhi then 1 else setflag ?p0 i j)
    \<and> epsilon (fst ?r) i j =
        (if ilo \<le> i \<and> i \<le> ihi \<and> jlo \<le> j \<and> i \<le> j \<and> j \<le> jhi then epsilon_one
         else epsilon p i j)
    \<and> sigma (fst ?r) i j =
        (if ilo \<le> i \<and> i \<le> ihi \<and> jlo \<le> j \<and> i \<le> j \<and> j \<le> jhi then sigma_one
         else sigma p i j)
    \<and> cut_lj (fst ?r) i j =
        (if ilo \<le> i \<and> i \<le> ihi \<and> jlo \<le> j \<and> i \<le> j \<and> j \<le> jhi then cut_lj_one
         else cut_lj p i j)"
    by (simp add: coeff_loop_tables allocate_frame)
  show ?thesis
    unfolding Let_def c co
    using tabs by (cases "snd ?r = 0") (simp_all only: if_True if_False simp_thms, blast)
qed

text \<open>
  With two types the arguments \<^verbatim>\<open>1*2 1*2 0.5 1.2\<close> set the three pairs \<open>(1,1)\<close>,
  \<open>(1,2)\<close> and \<open>(2,2)\<close>; the counter is \<open>3\<close>, and the pair \<open>(2,1)\<close> is not touched.
\<close>

theorem coeff_sets_upper_triangle_witness:
  "snd (coeff_loop (allocate two_types (zeroed\<lparr>cut_lj_global := 2.5\<rparr>)) 1 2 1 2 0.5 1.2 2.5) = 3
   \<and> (\<exists>p'. coeff two_types example_host (zeroed\<lparr>cut_lj_global := 2.5\<rparr>)
              [''1*2'', ''1*2'', ''0.5'', ''1.2''] = Inr p'
         \<and> setflag p' 1 1 = 1 \<and> setflag p' 1 2 = 1 \<and> setflag p' 2 2 = 1 \<and> setflag p' 2 1 = 0
         \<and> epsilon p' 1 1 = 0.5 \<and> epsilon p' 1 2 = 0.5 \<and> epsilon p' 2 2 = 0.5
         \<and> sigma p' 1 1 = 1.2 \<and> sigma p' 1 2 = 1.2 \<and> sigma p' 2 2 = 1.2
         \<and> cut_lj p' 1 1 = 2.5 \<and> cut_lj p' 1 2 = 2.5 \<and> cut_lj p' 2 2 = 2.5
         \<and> epsilon p' 2 1 = 0 \<and> sigma p' 2 1 = 0)"
  using coeff_sets_upper_triangle [OF two_types_args]
  unfolding Let_def
  by (auto simp: upt_two_types zeroed_fields allocate_setflag two_types_def)

text \<open>
  Claim C9 as stated, with four pairs, fails: on these arguments the counter is not
  \<open>4\<close>, and the flag and \<open>\<epsilon>\<close> of \<open>(2,1)\<close> are not set.
\<close>

theorem coeff_four_pairs_counterexample:
  "snd (coeff_loop (allocate two_types (zeroed\<lparr>cut_lj_global := 2.5\<rparr>)) 1 2 1 2 0.5 1.2 2.5) \<noteq> 4
   \<and> coeff two_types example_host (zeroed\<lparr>cut_lj_global := 2.5\<rparr>)
        [''1*2'', ''1*2'', ''0.5'', ''1.2'']
      = Inr (fst (coeff_loop (allocate two_types (zeroed\<lparr>cut_lj_global := 2.5\<rparr>))
                    1 2 1 2 0.5 1.2 2.5))
   \<and> setflag (fst (coeff_loop (allocate two_types (zeroed\<lparr>cut_lj_global := 2.5\<rparr>))
                    1 2 1 2 0.5 1.2 2.5)) 2 1 \<noteq> 1
   \<and> epsilon (fst (coeff_loop (allocate two_types (zeroed\<lparr>cut_lj_global := 2.5\<rparr>))
                    1 2 1 2 0.5 1.2 2.5)) 2 1 \<noteq> 0.5"
proof -
  let ?P = "zeroed\<lparr>cut_lj_global := 2.5\<rparr>"
  let ?r = "coeff_loop (allocate two_types ?P) 1 2 1 2 0.5 1.2 2.5"
  have count: "snd ?r = 3"
    by (simp add: coeff_loop_count upt_two_types)
  have p0: "(if allocated ?P then ?P else allocate two_types ?P) = allocate two_types ?P"
    by (simp add: zeroed_fields)
  have "coeff two_types example_host ?P [''1*2'', ''1*2'', ''0.5'', ''1.2''] = Inr (fst ?r)"
    using coeff_parsed [OF two_types_args] unfolding p0 count by simp
  moreover have "setflag (fst ?r) 2 1 = 0" "epsilon (fst ?r) 2 1 = 0"
    by (simp_all add: coeff_loop_tables allocate_setflag allocate_frame zeroed_fields)
  ultimately show ?thesis
    using count by simp
qed

text \<open>
  Claim C10. When \<^verbatim>\<open>settings\<close> succeeds on a state whose tables are allocated, the new
  global cutoff is the second argument, \<open>cut_lj(i,j)\<close> becomes the new global cutoff for
  every pair \<open>1 \<le> i < j \<le> ntypes\<close> whose flag is set and is unchanged for every other
  pair, in particular on the diagonal, and \<open>epsilon\<close>, \<open>sigma\<close> and the flags are
  unchanged.
\<close>

theorem settings_resets_cutoffs:
  assumes "settings atom force p arg = Inr p'" and "allocated p"
  shows "numeric force (arg ! 1) = Some (cut_lj_global p')
       \<and> (\<forall>i j. cut_lj p' i j =
             (if 1 \<le> i \<and> i < j \<and> j \<le> ntypes atom \<and> setflag p i j \<noteq> 0
              then cut_lj_global p' else cut_lj p i j))
       \<and> (\<forall>i. cut_lj p' i i = cut_lj p i i)
       \<and> epsilon p' = epsilon p \<and> sigma p' = sigma p \<and> setflag p' = setflag p"
proof -
  from assms(1) obtain p2 where "p' = reset_cutoffs atom p2"
    and "numeric force (arg ! 1) = Some (cut_lj_global p2)"
    and "allocated p2 = allocated p" and "setflag p2 = setflag p" and "cut_lj p2 = cut_lj p"
    and "epsilon p2 = epsilon p" and "sigma p2 = sigma p"
    by (rule settings_Inr)
  with assms(2) show ?thesis
    by (simp add: reset_cutoffs_fields)
qed

text \<open>
  On an allocated state with every pair \<open>i \<le> j\<close> set and all cutoffs \<open>2.5\<close>, the
  arguments \<^verbatim>\<open>0.2 3.0\<close> move the cutoff of \<open>(1,2)\<close> to \<open>3\<close> and leave those of \<open>(1,1)\<close>
  and \<open>(2,2)\<close> at \<open>2.5\<close>.
\<close>

theorem settings_resets_cutoffs_witness:
  "\<exists>p'. settings two_types example_host
           (zeroed\<lparr>allocated := True, setflag := (\<lambda>i j. if i \<le> j then 1 else 0),
                   cut_lj := (\<lambda>i j. 2.5)\<rparr>) [''0.2'', ''3.0''] = Inr p'
       \<and> cut_lj_global p' = 3
       \<and> cut_lj p' 1 2 = 3 \<and> cut_lj p' 1 1 = 2.5 \<and> cut_lj p' 2 2 = 2.5 \<and> cut_lj p' 2 1 = 2.5"
proof -
  define P where "P = zeroed\<lparr>allocated := True, setflag := (\<lambda>i j. if i \<le> j then 1 else 0),
                   cut_lj := (\<lambda>i j. 2.5)\<rparr>"
  define P' where "P' = reset_cutoffs two_types
       (zeroed\<lparr>allocated := True, setflag := (\<lambda>i j. if i \<le> j then 1 else 0),
               cut_lj := (\<lambda>i j. 2.5), alpha := 0.2, cut_lj_global := 3, cut_coul := 3,
               single_enable := 0\<rparr>)"
  have s: "settings two_types example_host P [''0.2'', ''3.0''] = Inr P'"
    unfolding P_def P'_def by (rule settings_example)
  have a: "allocated P"
    by (simp add: P_def)
  have P: "setflag P 1 2 \<noteq> 0" "cut_lj P i j = 2.5" for i j
    by (simp_all add: P_def)
  have n: "ntypes two_types = 2"
    by (simp add: two_types_def)
  have num: "numeric example_host ([''0.2'', ''3.0''] ! 1) = Some 3"
    by (simp add: example_host_def)
  note t = settings_resets_cutoffs [OF s a]
  from t num have g: "cut_lj_global P' = 3"
    by simp
  from t have c: "cut_lj P' i j =
      (if 1 \<le> i \<and> i < j \<and> j \<le> ntypes two_types \<and> setflag P i j \<noteq> 0
       then cut_lj_global P' else cut_lj P i j)" for i j
    by blast
  have "cut_lj P' 1 2 = 3" "cut_lj P' 1 1 = 2.5" "cut_lj P' 2 2 = 2.5" "cut_lj P' 2 1 = 2.5"
    unfolding c n g using P by simp_all
  with s g show ?thesis
    unfolding P_def [symmetric] by blast
qed

end
